theory Spec2Isabelle
  imports Complex_Main
begin

section \<open>Exceptions and values\<close>

text \<open>
  The exceptions the script can meet.  \<open>GatewayError\<close> stands for any exception raised
  inside a call of the storage client (credentials, network, permission, missing bucket);
  \<open>ArrowTypeError\<close> for a value that a declared column type does not accept.
\<close>

datatype py_error =
    IndexError
  | KeyError string
  | UniquenessException
  | AttributeError
  | TypeError
  | ArrowTypeError
  | GatewayError string

fun str_error :: "py_error \<Rightarrow> string" where
  "str_error IndexError = ''Cannot choose from an empty sequence''"
| "str_error (KeyError k) = k"
| "str_error UniquenessException = ''Got duplicated values after 1,000 iterations.''"
| "str_error AttributeError = ''AttributeError''"
| "str_error TypeError = ''TypeError''"
| "str_error ArrowTypeError = ''ArrowTypeError''"
| "str_error (GatewayError m) = m"

type_synonym uuid_str = string

text \<open>Calendar dates are counted in days since 1970-01-01.\<close>

type_synonym date = int

text \<open>A \<open>datetime\<close>: a date and a time of day.\<close>

record datetime =
  dt_date :: date
  dt_hour :: nat
  dt_minute :: nat
  dt_second :: nat
  dt_microsecond :: nat

text \<open>\<open>datetime.combine(d, datetime.min.time())\<close>\<close>

definition time_min :: "nat \<times> nat \<times> nat \<times> nat" where
  "time_min = (0, 0, 0, 0)"

definition datetime_combine :: "date \<Rightarrow> nat \<times> nat \<times> nat \<times> nat \<Rightarrow> datetime" where
  "datetime_combine d t =
     (case t of (h, m, s, us) \<Rightarrow>
        \<lparr>dt_date = d, dt_hour = h, dt_minute = m, dt_second = s, dt_microsecond = us\<rparr>)"

text \<open>The values found in the cells of a frame.\<close>

datatype py_value =
    PyStr string
  | PyInt int
  | PyFloat rat
  | PyDatetime datetime

text \<open>\<open>d[k]\<close> of a dictionary, its items in insertion order.\<close>

definition getitem :: "(string \<times> 'v) list \<Rightarrow> string \<Rightarrow> py_error + 'v" where
  "getitem d k = (case map_of d k of None \<Rightarrow> Inl (KeyError k) | Some v \<Rightarrow> Inr v)"

subsection \<open>The three kinds of record\<close>

text \<open>Each generator builds dictionaries with a fixed set of keys: one record per kind.\<close>

record patient =
  patient_id :: uuid_str
  first_name :: string
  last_name :: string
  age :: int
  gender :: string
  zip_code :: string
  insurance_type :: string
  registration_date :: string

record ehr_record =
  ehr_patient_id :: uuid_str
  visit_date :: string
  diagnosis_code :: string
  diagnosis_desc :: string
  heart_rate :: int
  blood_pressure :: string
  temperature :: rat

record claim =
  claim_id :: uuid_str
  claim_patient_id :: uuid_str
  provider_id :: uuid_str
  service_date :: datetime
  claim_diagnosis_code :: string
  procedure_code :: string
  claim_amount :: rat
  status :: string

definition patient_keys :: "string list" where
  "patient_keys = [''patient_id'', ''first_name'', ''last_name'', ''age'', ''gender'',
                   ''zip_code'', ''insurance_type'', ''registration_date'']"

definition claim_keys :: "string list" where
  "claim_keys = [''claim_id'', ''patient_id'', ''provider_id'', ''service_date'',
                 ''diagnosis_code'', ''procedure_code'', ''claim_amount'', ''status'']"

text \<open>The items of a claim dictionary, in the order of its keys.\<close>

definition claim_items :: "claim \<Rightarrow> (string \<times> py_value) list" where
  "claim_items c =
     [(''claim_id'', PyStr (claim_id c)),
      (''patient_id'', PyStr (claim_patient_id c)),
      (''provider_id'', PyStr (provider_id c)),
      (''service_date'', PyDatetime (service_date c)),
      (''diagnosis_code'', PyStr (claim_diagnosis_code c)),
      (''procedure_code'', PyStr (procedure_code c)),
      (''claim_amount'', PyFloat (claim_amount c)),
      (''status'', PyStr (status c))]"

subsection \<open>Frames\<close>

text \<open>
  \<open>pd.DataFrame(rows)\<close> of a list of dictionaries with the keys \<open>keys\<close>: the columns are
  the keys, and there is no column at all when there is no row.
\<close>

record 'r dataframe =
  df_columns :: "string list"
  df_rows :: "'r list"

definition DataFrame :: "string list \<Rightarrow> 'r list \<Rightarrow> 'r dataframe" where
  "DataFrame keys rs = \<lparr>df_columns = (if rs = [] then [] else keys), df_rows = rs\<rparr>"

text \<open>\<open>df['patient_id'].tolist()\<close> of a frame of patients.\<close>

definition patient_id_tolist :: "patient dataframe \<Rightarrow> py_error + uuid_str list" where
  "patient_id_tolist df =
     (if ''patient_id'' \<in> set (df_columns df) then Inr (map patient_id (df_rows df))
      else Inl (KeyError ''patient_id''))"

subsection \<open>Arrow tables\<close>

datatype arrow_type = ArrowString | ArrowTimestampMs | ArrowFloat64

datatype arrow_value =
    AString string
  | ATimestampMs int
  | AFloat64 rat

type_synonym arrow_schema = "(string \<times> arrow_type) list"

text \<open>A table: its schema and its columns, in the order of the schema.\<close>

record arrow_table =
  tbl_schema :: arrow_schema
  tbl_columns :: "arrow_value list list"

definition num_columns :: "arrow_table \<Rightarrow> nat" where
  "num_columns t = length (tbl_schema t)"

definition num_rows :: "arrow_table \<Rightarrow> nat" where
  "num_rows t = (case tbl_columns t of [] \<Rightarrow> 0 | c # _ \<Rightarrow> length c)"

text \<open>Milliseconds since the epoch of a \<open>datetime\<close>, when it has no finer part.\<close>

definition timestamp_ms :: "datetime \<Rightarrow> py_error + int" where
  "timestamp_ms dt =
     (if dt_microsecond dt mod 1000 \<noteq> 0 then Inl ArrowTypeError
      else Inr (dt_date dt * 86400000 + int (dt_hour dt) * 3600000 + int (dt_minute dt) * 60000
                + int (dt_second dt) * 1000 + int (dt_microsecond dt div 1000)))"

text \<open>
  Conversion of one cell to the declared type of its column: a value of the declared kind
  is stored, an integer is widened to a float, anything else is refused.
\<close>

fun to_arrow :: "arrow_type \<Rightarrow> py_value \<Rightarrow> py_error + arrow_value" where
  "to_arrow ArrowString (PyStr s) = Inr (AString s)"
| "to_arrow ArrowTimestampMs (PyDatetime dt) =
     (case timestamp_ms dt of Inl e \<Rightarrow> Inl e | Inr ms \<Rightarrow> Inr (ATimestampMs ms))"
| "to_arrow ArrowFloat64 (PyFloat x) = Inr (AFloat64 x)"
| "to_arrow ArrowFloat64 (PyInt i) = Inr (AFloat64 (of_int i))"
| "to_arrow _ _ = Inl ArrowTypeError"

text \<open>One column: the cell of that name of every row, converted.\<close>

fun convert_column ::
  "string \<Rightarrow> arrow_type \<Rightarrow> (string \<times> py_value) list list \<Rightarrow> py_error + arrow_value list" where
  "convert_column name ty [] = Inr []"
| "convert_column name ty (r # rs) =
     (case getitem r name of
        Inl e \<Rightarrow> Inl e
      | Inr v \<Rightarrow>
          (case to_arrow ty v of
             Inl e \<Rightarrow> Inl e
           | Inr a \<Rightarrow>
               (case convert_column name ty rs of Inl e \<Rightarrow> Inl e | Inr as \<Rightarrow> Inr (a # as))))"

text \<open>
  The columns of \<open>pa.Table.from_pandas(df, schema=schema)\<close>, in the order of the schema:
  a name of the schema that is no column of the frame is a \<open>KeyError\<close>.
\<close>

fun convert_columns ::
  "string list \<Rightarrow> (string \<times> py_value) list list \<Rightarrow> arrow_schema
     \<Rightarrow> py_error + arrow_value list list" where
  "convert_columns cols rs [] = Inr []"
| "convert_columns cols rs ((name, ty) # sch) =
     (if name \<notin> set cols
      then Inl (KeyError (''name '' @ name
                  @ '' present in the specified schema is not found in the columns or index''))
      else case convert_column name ty rs of
             Inl e \<Rightarrow> Inl e
           | Inr c \<Rightarrow>
               (case convert_columns cols rs sch of Inl e \<Rightarrow> Inl e | Inr cs \<Rightarrow> Inr (c # cs)))"

definition Table_from_pandas :: "claim dataframe \<Rightarrow> arrow_schema \<Rightarrow> py_error + arrow_table" where
  "Table_from_pandas df sch =
     (case convert_columns (df_columns df) (map claim_items (df_rows df)) sch of
        Inl e \<Rightarrow> Inl e
      | Inr cs \<Rightarrow> Inr \<lparr>tbl_schema = sch, tbl_columns = cs\<rparr>)"

subsection \<open>Stored objects\<close>

text \<open>
  What a blob holds.  The text of a CSV export and the bytes of a Parquet file are
  produced by pandas and pyarrow; they are kept as the frame and the table they encode.
\<close>

datatype blob_body =
    TextBody string
  | CsvOf "string list" "patient list"
  | ParquetOf arrow_table

record blob =
  content_type :: string
  body :: blob_body

section \<open>The world\<close>

text \<open>
  Both random generators of the program (the module \<open>random\<close> and the one inside
  \<open>fake\<close>) are hidden global state.  They are modelled by one infinite sequence of raw
  draws and a cursor; every primitive consumes the next draw.  The set kept by
  \<open>fake.unique\<close> for \<open>uuid4\<close> is the list \<open>seen_uuid4\<close>.  The storage service is the list
  of bucket names of the project and the objects of the script's bucket; the \<open>k\<close>-th
  call into the storage client fails when \<open>fault_plan k\<close> names a failure.
\<close>

record world =
  entropy :: "nat \<Rightarrow> nat"
  cursor :: nat
  seen_uuid4 :: "uuid_str list"
  today :: date
  first_name_of :: "nat \<Rightarrow> string"
  last_name_of :: "nat \<Rightarrow> string"
  stdout :: "string list"
  fault_plan :: "nat \<Rightarrow> string option"
  calls :: nat
  buckets :: "string list"
  objects :: "(string \<times> blob) list"

type_synonym 'a io = "world \<Rightarrow> (py_error + 'a) \<times> world"

text \<open>Sequencing: an exception ends the computation in the state it was raised in.\<close>

definition seq_bind :: "'a io \<Rightarrow> ('a \<Rightarrow> 'b io) \<Rightarrow> 'b io" where
  "seq_bind m f w = (case m w of (Inl e, w') \<Rightarrow> (Inl e, w') | (Inr x, w') \<Rightarrow> f x w')"

definition return_io :: "'a \<Rightarrow> 'a io" where
  "return_io x w = (Inr x, w)"

definition raise_io :: "py_error \<Rightarrow> 'a io" where
  "raise_io e w = (Inl e, w)"

text \<open>A primitive that cannot fail, and a computation without effect.\<close>

definition lift_io :: "(world \<Rightarrow> 'a \<times> world) \<Rightarrow> 'a io" where
  "lift_io p w = (case p w of (x, w') \<Rightarrow> (Inr x, w'))"

definition pure_io :: "py_error + 'a \<Rightarrow> 'a io" where
  "pure_io r w = (r, w)"

definition print :: "string \<Rightarrow> unit io" where
  "print line w = (Inr (), w\<lparr>stdout := stdout w @ [line]\<rparr>)"

section \<open>Randomness\<close>

definition next_draw :: "world \<Rightarrow> nat \<times> world" where
  "next_draw w = (entropy w (cursor w), w\<lparr>cursor := Suc (cursor w)\<rparr>)"

text \<open>\<open>random.randint(a, b)\<close> for \<open>a \<le> b\<close>: an integer of the closed interval.\<close>

definition random_randint :: "int \<Rightarrow> int \<Rightarrow> world \<Rightarrow> int \<times> world" where
  "random_randint a b w =
     (case next_draw w of (r, w') \<Rightarrow> (a + int (r mod (nat (b - a) + 1)), w'))"

text \<open>\<open>random.choice(seq)\<close>: IndexError on an empty sequence, before anything is drawn.\<close>

definition random_choice :: "'a list \<Rightarrow> 'a io" where
  "random_choice xs w =
     (if xs = [] then (Inl IndexError, w)
      else case next_draw w of (r, w') \<Rightarrow> (Inr (xs ! (r mod length xs)), w'))"

text \<open>
  \<open>random.uniform(a, b)\<close> is \<open>a + (b - a) * random()\<close>, with \<open>random()\<close> a multiple of
  \<open>2^-53\<close> in \<open>[0, 1)\<close>.  Floating-point numbers are read as the rationals they denote.
\<close>

definition random_random :: "world \<Rightarrow> rat \<times> world" where
  "random_random w = (case next_draw w of (r, w') \<Rightarrow> (of_nat (r mod 2 ^ 53) / 2 ^ 53, w'))"

definition random_uniform :: "rat \<Rightarrow> rat \<Rightarrow> world \<Rightarrow> rat \<times> world" where
  "random_uniform a b w = (case random_random w of (u, w') \<Rightarrow> (a + (b - a) * u, w'))"

text \<open>\<open>round(x, ndigits)\<close>: to the nearest multiple of \<open>10^-ndigits\<close>, ties to the even one.\<close>

definition round_half_even :: "rat \<Rightarrow> int" where
  "round_half_even y =
     (let f = \<lfloor>y\<rfloor>; d = y - of_int f
      in if d < 1 / 2 then f else if 1 / 2 < d then f + 1 else if even f then f else f + 1)"

definition py_round :: "rat \<Rightarrow> nat \<Rightarrow> rat" where
  "py_round x ndigits = of_int (round_half_even (x * 10 ^ ndigits)) / 10 ^ ndigits"

section \<open>Text\<close>

definition digit_char :: "nat \<Rightarrow> char" where
  "digit_char d = ''0123456789'' ! (d mod 10)"

text \<open>\<open>str(n)\<close> of a natural number.\<close>

fun str_nat :: "nat \<Rightarrow> string" where
  "str_nat n = (if n < 10 then [digit_char n] else str_nat (n div 10) @ [digit_char n])"

declare str_nat.simps [simp del]

definition str_int :: "int \<Rightarrow> string" where
  "str_int i = (if i < 0 then ''-'' @ str_nat (nat (- i)) else str_nat (nat i))"

text \<open>\<open>'%0kd' % n\<close> for a natural number: padded with zeros on the left.\<close>

definition zero_pad :: "nat \<Rightarrow> nat \<Rightarrow> string" where
  "zero_pad k n = replicate (k - length (str_nat n)) CHR ''0'' @ str_nat n"

definition hex_digit :: "nat \<Rightarrow> char" where
  "hex_digit d = ''0123456789abcdef'' ! (d mod 16)"

text \<open>\<open>'%0kx' % n\<close>, the last \<open>k\<close> hexadecimal digits.\<close>

fun hex_width :: "nat \<Rightarrow> nat \<Rightarrow> string" where
  "hex_width 0 n = []"
| "hex_width (Suc k) n = hex_width k (n div 16) @ [hex_digit n]"

text \<open>\<open>sep.join(units)\<close>\<close>

fun str_join :: "string \<Rightarrow> string list \<Rightarrow> string" where
  "str_join sep [] = []"
| "str_join sep [u] = u"
| "str_join sep (u # v # vs) = u @ sep @ str_join sep (v # vs)"

text \<open>
  \<open>str(d)\<close> of a date, \<open>YYYY-MM-DD\<close>: the civil date of a day count, for the years 1 to
  9999 that a \<open>date\<close> can hold.
\<close>

definition civil_of_days :: "date \<Rightarrow> int \<times> int \<times> int" where
  "civil_of_days z0 =
     (let z = z0 + 719468;
          era = z div 146097;
          doe = z - era * 146097;
          yoe = (doe - doe div 1460 + doe div 36524 - doe div 146096) div 365;
          y = yoe + era * 400;
          doy = doe - (365 * yoe + yoe div 4 - yoe div 100);
          mp = (5 * doy + 2) div 153;
          d = doy - (153 * mp + 2) div 5 + 1;
          m = (if mp < 10 then mp + 3 else mp - 9)
      in (if m \<le> 2 then y + 1 else y, m, d))"

definition str_date :: "date \<Rightarrow> string" where
  "str_date z =
     (case civil_of_days z of
        (y, m, d) \<Rightarrow> zero_pad 4 (nat y) @ ''-'' @ zero_pad 2 (nat m) @ ''-'' @ zero_pad 2 (nat d))"

text \<open>
  \<open>repr(x)\<close> of a float that is a multiple of one tenth and not negative: the integer
  part, a point and one digit.
\<close>

definition repr_tenths :: "rat \<Rightarrow> string" where
  "repr_tenths x =
     (let t = nat \<lfloor>x * 10\<rfloor> in str_nat (t div 10) @ ''.'' @ [digit_char t])"

subsection \<open>JSON\<close>

text \<open>
  \<open>json.dumps\<close> with its defaults writes a string between double quotes and escapes the
  backslash, the double quote and every character outside the printable ASCII range.
\<close>

definition json_escape_char :: "char \<Rightarrow> string" where
  "json_escape_char c =
     (if c = CHR 0x5C then [CHR 0x5C, CHR 0x5C]
      else if c = CHR 0x22 then [CHR 0x5C, CHR 0x22]
      else if c = CHR 0x08 then [CHR 0x5C, CHR ''b'']
      else if c = CHR 0x0C then [CHR 0x5C, CHR ''f'']
      else if c = CHR 0x0A then [CHR 0x5C, CHR ''n'']
      else if c = CHR 0x0D then [CHR 0x5C, CHR ''r'']
      else if c = CHR 0x09 then [CHR 0x5C, CHR ''t'']
      else if (of_char c :: nat) < 0x20 \<or> 0x7E < (of_char c :: nat)
        then [CHR 0x5C, CHR ''u'', CHR ''0'', CHR ''0''] @ hex_width 2 (of_char c)
      else [c])"

definition json_string :: "string \<Rightarrow> string" where
  "json_string s = [CHR 0x22] @ concat (map json_escape_char s) @ [CHR 0x22]"

definition json_item :: "string \<Rightarrow> string \<Rightarrow> string" where
  "json_item k v = json_string k @ '': '' @ v"

text \<open>\<open>json.dumps(ehr_record)\<close>: the items in the order of insertion.\<close>

definition json_dumps :: "ehr_record \<Rightarrow> string" where
  "json_dumps r =
     ''{'' @ str_join '', ''
       [json_item ''patient_id'' (json_string (ehr_patient_id r)),
        json_item ''visit_date'' (json_string (visit_date r)),
        json_item ''diagnosis_code'' (json_string (diagnosis_code r)),
        json_item ''diagnosis_desc'' (json_string (diagnosis_desc r)),
        json_item ''heart_rate'' (str_int (heart_rate r)),
        json_item ''blood_pressure'' (json_string (blood_pressure r)),
        json_item ''temperature'' (repr_tenths (temperature r))] @ ''}''"

section \<open>Fake data\<close>

text \<open>
  \<open>uuid.UUID(int=getrandbits(128), version=4)\<close> keeps bits 0 to 61, 64 to 75 and 80 to
  127 of the 128 random bits, makes the variant bits 62 and 63 \<open>10\<close> and the version
  nibble, bits 76 to 79, \<open>4\<close>; \<open>str\<close> of it is the 32 hexadecimal digits in five groups.
\<close>

definition uuid4_int :: "nat \<Rightarrow> nat" where
  "uuid4_int r =
     (let i = r mod 2 ^ 128
      in i mod 2 ^ 62 + 2 ^ 63 + (i div 2 ^ 64 mod 2 ^ 12) * 2 ^ 64 + 4 * 2 ^ 76
         + (i div 2 ^ 80) * 2 ^ 80)"

definition uuid_str_of :: "nat \<Rightarrow> uuid_str" where
  "uuid_str_of i =
     (let h = hex_width 32 i
      in take 8 h @ ''-'' @ take 4 (drop 8 h) @ ''-'' @ take 4 (drop 12 h) @ ''-''
         @ take 4 (drop 16 h) @ ''-'' @ drop 20 h)"

definition fake_uuid4 :: "world \<Rightarrow> uuid_str \<times> world" where
  "fake_uuid4 w = (case next_draw w of (r, w') \<Rightarrow> (uuid_str_of (uuid4_int r), w'))"

text \<open>
  \<open>fake.unique.uuid4()\<close>.  The proxy starts from a sentinel that counts as already seen
  and runs at most 1000 rounds: a round stops the loop when the current value is new, and
  draws another value otherwise.  When no round stopped the loop it raises
  \<open>UniquenessException\<close>.  A returned value is added to the seen values.  The first round
  meets the sentinel and always draws; \<open>unique_rounds\<close> is the rounds after it.
\<close>

fun unique_rounds :: "nat \<Rightarrow> uuid_str \<Rightarrow> uuid_str io" where
  "unique_rounds 0 retval w = (Inl UniquenessException, w)"
| "unique_rounds (Suc k) retval w =
     (if retval \<notin> set (seen_uuid4 w) then (Inr retval, w)
      else case fake_uuid4 w of (v, w') \<Rightarrow> unique_rounds k v w')"

definition fake_unique_uuid4 :: "uuid_str io" where
  "fake_unique_uuid4 w =
     (case fake_uuid4 w of
        (v0, w0) \<Rightarrow>
          (case unique_rounds 999 v0 w0 of
             (Inl e, w') \<Rightarrow> (Inl e, w')
           | (Inr v, w') \<Rightarrow> (Inr v, w'\<lparr>seen_uuid4 := v # seen_uuid4 w'\<rparr>)))"

definition fake_first_name :: "world \<Rightarrow> string \<times> world" where
  "fake_first_name w = (case next_draw w of (r, w') \<Rightarrow> (first_name_of w r, w'))"

definition fake_last_name :: "world \<Rightarrow> string \<times> world" where
  "fake_last_name w = (case next_draw w of (r, w') \<Rightarrow> (last_name_of w r, w'))"

text \<open>\<open>fake.zipcode()\<close>: five digits.\<close>

definition fake_zipcode :: "world \<Rightarrow> string \<times> world" where
  "fake_zipcode w = (case random_randint 501 99950 w of (z, w') \<Rightarrow> (zero_pad 5 (nat z), w'))"

text \<open>\<open>fake.date_between(start_date, end_date)\<close>: a date from the first to the second.\<close>

definition fake_date_between :: "date \<Rightarrow> date \<Rightarrow> world \<Rightarrow> date \<times> world" where
  "fake_date_between s e w = random_randint s e w"

text \<open>\<open>start_date = datetime(2020, 1, 1)\<close>; \<open>end_date\<close> is the day of the run.\<close>

definition start_date :: date where
  "start_date = 18262"

definition end_date :: "world \<Rightarrow> date" where
  "end_date w = today w"

definition sample_date :: "date io" where
  "sample_date w = lift_io (fake_date_between start_date (end_date w)) w"

section \<open>The generators\<close>

subsection \<open>Patients\<close>

text \<open>One round of the loop of \<open>generate_patients\<close>.\<close>

definition patient_round :: "patient io" where
  "patient_round =
     seq_bind fake_unique_uuid4 (\<lambda>pid.
     seq_bind (lift_io fake_first_name) (\<lambda>fname.
     seq_bind (lift_io fake_last_name) (\<lambda>lname.
     seq_bind (lift_io (random_randint 0 100)) (\<lambda>a.
     seq_bind (random_choice [''Male'', ''Female'']) (\<lambda>g.
     seq_bind (lift_io fake_zipcode) (\<lambda>z.
     seq_bind (random_choice [''Private'', ''Medicare'', ''Medicaid'']) (\<lambda>ins.
     seq_bind sample_date (\<lambda>reg.
     return_io
       \<lparr>patient_id = pid, first_name = fname, last_name = lname, age = a, gender = g,
        zip_code = z, insurance_type = ins, registration_date = str_date reg\<rparr>))))))))"

fun patients_loop :: "nat \<Rightarrow> patient list \<Rightarrow> patient list io" where
  "patients_loop 0 patients w = (Inr patients, w)"
| "patients_loop (Suc k) patients w =
     (case patient_round w of
        (Inl e, w') \<Rightarrow> (Inl e, w')
      | (Inr p, w') \<Rightarrow> patients_loop k (patients @ [p]) w')"

definition generate_patients :: "nat \<Rightarrow> patient dataframe io" where
  "generate_patients num_records =
     seq_bind (print ''Generating patient demographic data in CSV format...'') (\<lambda>_.
     seq_bind (patients_loop num_records []) (\<lambda>patients.
     return_io (DataFrame patient_keys patients)))"

subsection \<open>Electronic health records\<close>

definition ehr_codes :: "string list" where
  "ehr_codes = [''E11.9'', ''I10'', ''J45'', ''N18.9'', ''Z00.0'']"

definition diagnosis_table :: "(string \<times> string) list" where
  "diagnosis_table =
     [(''E11.9'', ''Type 2 diabetes mellitus''),
      (''I10'', ''Essential hypertension''),
      (''J45'', ''Asthma''),
      (''N18.9'', ''Chronic kidney disease''),
      (''Z00.0'', ''General medical exam'')]"

text \<open>
  One round of the loop of \<open>generate_ehr\<close>, up to the dictionary.  The list the diagnosis
  code is chosen from is a parameter; the script chooses from \<open>ehr_codes\<close>.
\<close>

definition ehr_round :: "string list \<Rightarrow> uuid_str list \<Rightarrow> ehr_record io" where
  "ehr_round codes patient_ids =
     seq_bind (random_choice patient_ids) (\<lambda>pid.
     seq_bind sample_date (\<lambda>vd.
     seq_bind (random_choice codes) (\<lambda>code.
     seq_bind (pure_io (getitem diagnosis_table code)) (\<lambda>desc.
     seq_bind (lift_io (random_randint 60 100)) (\<lambda>hr.
     seq_bind (lift_io (random_randint 110 140)) (\<lambda>systolic.
     seq_bind (lift_io (random_randint 70 90)) (\<lambda>diastolic.
     seq_bind (lift_io (random_uniform 97 (995 / 10))) (\<lambda>t.
     return_io
       \<lparr>ehr_patient_id = pid, visit_date = str_date vd, diagnosis_code = code,
        diagnosis_desc = desc, heart_rate = hr,
        blood_pressure = str_int systolic @ ''/'' @ str_int diastolic,
        temperature = py_round t 1\<rparr>))))))))"

fun ehr_loop :: "string list \<Rightarrow> nat \<Rightarrow> uuid_str list \<Rightarrow> string list \<Rightarrow> string list io" where
  "ehr_loop codes 0 patient_ids ehr_records w = (Inr ehr_records, w)"
| "ehr_loop codes (Suc k) patient_ids ehr_records w =
     (case ehr_round codes patient_ids w of
        (Inl e, w') \<Rightarrow> (Inl e, w')
      | (Inr r, w') \<Rightarrow> ehr_loop codes k patient_ids (ehr_records @ [json_dumps r]) w')"

definition generate_ehr_from :: "string list \<Rightarrow> nat \<Rightarrow> uuid_str list \<Rightarrow> string list io" where
  "generate_ehr_from codes num_records patient_ids =
     seq_bind
       (print ''Generating electronic health records data in newline-delimited JSON format...'')
       (\<lambda>_. ehr_loop codes num_records patient_ids [])"

definition generate_ehr :: "nat \<Rightarrow> uuid_str list \<Rightarrow> string list io" where
  "generate_ehr = generate_ehr_from ehr_codes"

subsection \<open>Claims\<close>

definition claims_schema :: arrow_schema where
  "claims_schema =
     [(''claim_id'', ArrowString),
      (''patient_id'', ArrowString),
      (''provider_id'', ArrowString),
      (''service_date'', ArrowTimestampMs),
      (''diagnosis_code'', ArrowString),
      (''procedure_code'', ArrowString),
      (''claim_amount'', ArrowFloat64),
      (''status'', ArrowString)]"

text \<open>One round of the loop of \<open>generate_claims\<close>.\<close>

definition claim_round :: "uuid_str list \<Rightarrow> claim io" where
  "claim_round patient_ids =
     seq_bind fake_unique_uuid4 (\<lambda>cid.
     seq_bind (random_choice patient_ids) (\<lambda>pid.
     seq_bind fake_unique_uuid4 (\<lambda>prov.
     seq_bind sample_date (\<lambda>sd.
     seq_bind (random_choice [''E11.9'', ''I10'', ''J45'', ''N18.9'']) (\<lambda>code.
     seq_bind (random_choice [''99213'', ''80053'', ''83036'', ''93000'']) (\<lambda>pcode.
     seq_bind (lift_io (random_uniform 100 5000)) (\<lambda>amount.
     seq_bind (random_choice [''Paid'', ''Denied'', ''Pending'']) (\<lambda>st.
     return_io
       \<lparr>claim_id = cid, claim_patient_id = pid, provider_id = prov,
        service_date = datetime_combine sd time_min, claim_diagnosis_code = code,
        procedure_code = pcode, claim_amount = py_round amount 2, status = st\<rparr>))))))))"

fun claims_loop :: "nat \<Rightarrow> uuid_str list \<Rightarrow> claim list \<Rightarrow> claim list io" where
  "claims_loop 0 patient_ids claims w = (Inr claims, w)"
| "claims_loop (Suc k) patient_ids claims w =
     (case claim_round patient_ids w of
        (Inl e, w') \<Rightarrow> (Inl e, w')
      | (Inr c, w') \<Rightarrow> claims_loop k patient_ids (claims @ [c]) w')"

definition generate_claims :: "nat \<Rightarrow> uuid_str list \<Rightarrow> arrow_table io" where
  "generate_claims num_records patient_ids =
     seq_bind (print ''Generating claims data in Parquet format with explicit schema...'') (\<lambda>_.
     seq_bind (claims_loop num_records patient_ids []) (\<lambda>claims.
     pure_io (Table_from_pandas (DataFrame claim_keys claims) claims_schema)))"

section \<open>The storage gateway\<close>

definition BUCKET_NAME :: string where
  "BUCKET_NAME = ''healthcare-data-bucket-treadway''"

definition DEV_PATH :: string where
  "DEV_PATH = ''dev/''"

definition PROD_PATH :: string where
  "PROD_PATH = ''prod/''"

definition DEV_RECORDS :: nat where
  "DEV_RECORDS = 5000"

definition PROD_RECORDS :: nat where
  "PROD_RECORDS = 20000"

text \<open>One call into the storage client: it fails when the plan of faults says so.\<close>

definition client_call :: "unit io" where
  "client_call w =
     (case fault_plan w (calls w) of
        Some m \<Rightarrow> (Inl (GatewayError m), w\<lparr>calls := Suc (calls w)\<rparr>)
      | None \<Rightarrow> (Inr (), w\<lparr>calls := Suc (calls w)\<rparr>))"

text \<open>A call that needs the bucket of the script.\<close>

definition bucket_call :: "unit io" where
  "bucket_call =
     seq_bind client_call (\<lambda>_ w.
       if BUCKET_NAME \<in> set (buckets w) then (Inr (), w) else (Inl (GatewayError ''NotFound''), w))"

definition bucket_exists :: "bool io" where
  "bucket_exists = seq_bind client_call (\<lambda>_ w. (Inr (BUCKET_NAME \<in> set (buckets w)), w))"

definition client_create_bucket :: "unit io" where
  "client_create_bucket =
     seq_bind client_call (\<lambda>_ w.
       if BUCKET_NAME \<in> set (buckets w) then (Inl (GatewayError ''Conflict''), w)
       else (Inr (), w\<lparr>buckets := buckets w @ [BUCKET_NAME]\<rparr>))"

definition list_blobs :: "string \<Rightarrow> string list io" where
  "list_blobs pre =
     seq_bind bucket_call (\<lambda>_ w.
       (Inr (filter (\<lambda>name. take (length pre) name = pre) (map fst (objects w))), w))"

definition blob_delete :: "string \<Rightarrow> unit io" where
  "blob_delete name =
     seq_bind bucket_call (\<lambda>_ w.
       if name \<in> fst ` set (objects w)
       then (Inr (), w\<lparr>objects := filter (\<lambda>(n, b). n \<noteq> name) (objects w)\<rparr>)
       else (Inl (GatewayError ''NotFound''), w))"

definition blob_upload :: "string \<Rightarrow> string \<Rightarrow> blob_body \<Rightarrow> unit io" where
  "blob_upload name ctype payload =
     seq_bind bucket_call (\<lambda>_ w.
       (Inr (), w\<lparr>objects := filter (\<lambda>(n, b). n \<noteq> name) (objects w)
                              @ [(name, \<lparr>content_type = ctype, body = payload\<rparr>)]\<rparr>))"

definition quoted :: "string \<Rightarrow> string" where
  "quoted s = [CHR 0x27] @ s @ [CHR 0x27]"

text \<open>The body of the \<open>try\<close> of \<open>create_bucket\<close>, and \<open>create_bucket\<close> with its handler.\<close>

definition create_bucket_try :: "unit io" where
  "create_bucket_try =
     seq_bind bucket_exists (\<lambda>ex.
       if \<not> ex
       then seq_bind client_create_bucket (\<lambda>_.
              print (''Bucket '' @ quoted BUCKET_NAME @ '' created successfully.''))
       else print (''Bucket '' @ quoted BUCKET_NAME @ '' already exists.''))"

definition create_bucket :: "unit io" where
  "create_bucket w =
     (case create_bucket_try w of
        (Inl e, w') \<Rightarrow> print (''Error creating bucket: '' @ str_error e) w'
      | (Inr u, w') \<Rightarrow> (Inr u, w'))"

fun delete_each :: "string list \<Rightarrow> unit io" where
  "delete_each [] w = (Inr (), w)"
| "delete_each (name # names) w =
     (case seq_bind (blob_delete name) (\<lambda>_. print (''Deleted '' @ quoted name)) w of
        (Inl e, w') \<Rightarrow> (Inl e, w')
      | (Inr u, w') \<Rightarrow> delete_each names w')"

definition empty_gcs_folder :: "string \<Rightarrow> unit io" where
  "empty_gcs_folder path =
     seq_bind (print (''Emptying folder '' @ quoted path @ '' in GCS bucket ''
                 @ quoted BUCKET_NAME @ ''...'')) (\<lambda>_.
     seq_bind (list_blobs path) (\<lambda>blobs.
     seq_bind (delete_each blobs) (\<lambda>_.
     print (''Completed emptying folder '' @ quoted path @ ''.''))))"

text \<open>
  The first argument of \<open>upload_to_gcs\<close> is a frame, a list of strings or a table.  A frame
  has no other serialisation than \<open>to_csv\<close>, joining a frame joins its column names, and
  only a table can be written as Parquet.
\<close>

datatype upload_data =
    Frame "patient dataframe"
  | Units "string list"
  | Table arrow_table

definition upload_to_gcs :: "upload_data \<Rightarrow> string \<Rightarrow> string \<Rightarrow> string \<Rightarrow> unit io" where
  "upload_to_gcs data path filename file_format =
     seq_bind (print (''Uploading '' @ filename @ '' in '' @ file_format
                 @ '' format to GCS...'')) (\<lambda>_.
     seq_bind
       (if file_format = ''csv'' then
          (case data of
             Frame df \<Rightarrow> blob_upload (path @ filename) ''text/csv'' (CsvOf (df_columns df) (df_rows df))
           | Units us \<Rightarrow> raise_io AttributeError
           | Table t \<Rightarrow> raise_io AttributeError)
        else if file_format = ''json'' then
          (case data of
             Frame df \<Rightarrow>
               blob_upload (path @ filename) ''application/json''
                 (TextBody (str_join [CHR 0x0A] (df_columns df)))
           | Units us \<Rightarrow>
               blob_upload (path @ filename) ''application/json''
                 (TextBody (str_join [CHR 0x0A] us))
           | Table t \<Rightarrow> raise_io TypeError)
        else if file_format = ''parquet'' then
          (case data of
             Frame df \<Rightarrow> raise_io TypeError
           | Units us \<Rightarrow> raise_io TypeError
           | Table t \<Rightarrow> blob_upload (path @ filename) ''application/octet-stream'' (ParquetOf t))
        else return_io ()) (\<lambda>_.
     print (''Uploaded '' @ filename @ '' to '' @ path)))"

section \<open>The script\<close>

text \<open>Connecting: the client is made from the key file and the buckets are listed.\<close>

fun print_each :: "string list \<Rightarrow> unit io" where
  "print_each [] w = (Inr (), w)"
| "print_each (name # names) w =
     (case print ('' - '' @ name) w of
        (Inl e, w') \<Rightarrow> (Inl e, w')
      | (Inr u, w') \<Rightarrow> print_each names w')"

definition connect :: "unit io" where
  "connect =
     seq_bind client_call (\<lambda>_.
     seq_bind client_call (\<lambda>_.
     seq_bind (print ''Successfully connected to GCS. Available buckets:'') (\<lambda>_ w.
     print_each (buckets w) w)))"

text \<open>
  One pass: the statements of the script for one folder and one number of records.  The
  script has them twice, for \<open>dev\<close> and for \<open>prod\<close>.
\<close>

record pass_data =
  pass_patients :: "patient dataframe"
  pass_ehr :: "string list"
  pass_claims :: arrow_table

definition run_pass :: "string \<Rightarrow> nat \<Rightarrow> pass_data io" where
  "run_pass path records =
     seq_bind (empty_gcs_folder path) (\<lambda>_.
     seq_bind (generate_patients records) (\<lambda>patients.
     seq_bind (pure_io (patient_id_tolist patients)) (\<lambda>ids.
     seq_bind (generate_ehr records ids) (\<lambda>ehr.
     seq_bind (pure_io (patient_id_tolist patients)) (\<lambda>ids'.
     seq_bind (generate_claims records ids') (\<lambda>claims.
     seq_bind (upload_to_gcs (Frame patients) path ''patient_data.csv'' ''csv'') (\<lambda>_.
     seq_bind (upload_to_gcs (Units ehr) path ''ehr_data.json'' ''json'') (\<lambda>_.
     seq_bind (upload_to_gcs (Table claims) path ''claims_data.parquet'' ''parquet'') (\<lambda>_.
     return_io \<lparr>pass_patients = patients, pass_ehr = ehr, pass_claims = claims\<rparr>)))))))))"

text \<open>The script after its imports, with the two numbers of records as parameters.\<close>

definition script :: "nat \<Rightarrow> nat \<Rightarrow> (pass_data \<times> pass_data) io" where
  "script dev_records prod_records =
     seq_bind connect (\<lambda>_.
     seq_bind create_bucket (\<lambda>_.
     seq_bind (run_pass DEV_PATH dev_records) (\<lambda>dev.
     seq_bind (run_pass PROD_PATH prod_records) (\<lambda>prod.
     seq_bind (print ''Data generation and upload to GCS completed successfully.'') (\<lambda>_.
     return_io (dev, prod))))))"

definition main :: "(pass_data \<times> pass_data) io" where
  "main = script DEV_RECORDS PROD_RECORDS"

section \<open>Notions used in the statements\<close>

text \<open>
  The first candidates of \<open>n\<close> rounds of \<open>generate_patients\<close> that need no second draw:
  a round then takes eight draws, the first of them for the identifier.
\<close>

fun first_candidates :: "(nat \<Rightarrow> nat) \<Rightarrow> nat \<Rightarrow> nat \<Rightarrow> uuid_str list" where
  "first_candidates ent c 0 = []"
| "first_candidates ent c (Suc n) = uuid_str_of (uuid4_int (ent c)) # first_candidates ent (c + 8) n"

text \<open>A world at the start of a run, with draws that count upwards.\<close>

definition world1 :: world where
  "world1 =
     \<lparr>entropy = (\<lambda>i. i), cursor = 0, seen_uuid4 = [], today = 20761,
      first_name_of = (\<lambda>r. ''Ann''), last_name_of = (\<lambda>r. ''Lee''), stdout = [],
      fault_plan = (\<lambda>k. None), calls = 0, buckets = [], objects = []\<rparr>"

text \<open>The same world with a random source that always gives the same draw.\<close>

definition world2 :: world where
  "world2 = world1\<lparr>entropy := (\<lambda>i. 7)\<rparr>"

text \<open>
  The lines of a text, as a reader of a line-delimited file sees them: a newline ends a
  line, and the last line needs no newline.
\<close>

fun split_lines :: "string \<Rightarrow> string \<Rightarrow> string list" where
  "split_lines cur [] = (if cur = [] then [] else [cur])"
| "split_lines cur (c # cs) =
     (if c = CHR 0x0A then cur # split_lines [] cs else split_lines (cur @ [c]) cs)"

definition lines_of :: "string \<Rightarrow> string list" where
  "lines_of s = split_lines [] s"

text \<open>\<open>table.column(name)\<close>: the column of that name.\<close>

definition table_column :: "arrow_table \<Rightarrow> string \<Rightarrow> py_error + arrow_value list" where
  "table_column t name = getitem (zip (map fst (tbl_schema t)) (tbl_columns t)) name"

text \<open>The lines the generators print first.\<close>

definition patients_banner :: string where
  "patients_banner = ''Generating patient demographic data in CSV format...''"

definition ehr_banner :: string where
  "ehr_banner = ''Generating electronic health records data in newline-delimited JSON format...''"

definition claims_banner :: string where
  "claims_banner = ''Generating claims data in Parquet format with explicit schema...''"

text \<open>The identifiers a list of claims carries, in the order they were drawn.\<close>

definition claim_uuids :: "claim list \<Rightarrow> uuid_str list" where
  "claim_uuids cs = concat (map (\<lambda>c. [claim_id c, provider_id c]) cs)"

text \<open>
  The first candidates of \<open>n\<close> rounds of \<open>generate_claims\<close> that need no second draw: a
  round then takes eight draws, the first and the third of them for identifiers.
\<close>

fun claim_candidates :: "(nat \<Rightarrow> nat) \<Rightarrow> nat \<Rightarrow> nat \<Rightarrow> uuid_str list" where
  "claim_candidates ent c 0 = []"
| "claim_candidates ent c (Suc n) =
     uuid_str_of (uuid4_int (ent c)) # uuid_str_of (uuid4_int (ent (c + 2)))
       # claim_candidates ent (c + 8) n"

text \<open>The columns of the table of a list of claims, cell by cell.\<close>

definition claim_columns :: "claim list \<Rightarrow> arrow_value list list" where
  "claim_columns cs =
     [map (\<lambda>c. AString (claim_id c)) cs,
      map (\<lambda>c. AString (claim_patient_id c)) cs,
      map (\<lambda>c. AString (provider_id c)) cs,
      map (\<lambda>c. ATimestampMs (dt_date (service_date c) * 86400000)) cs,
      map (\<lambda>c. AString (claim_diagnosis_code c)) cs,
      map (\<lambda>c. AString (procedure_code c)) cs,
      map (\<lambda>c. AFloat64 (claim_amount c)) cs,
      map (\<lambda>c. AString (status c)) cs]"

text \<open>
  A world whose bucket exists and whose storage calls all succeed, and one patient
  identifier to refer to.
\<close>

definition world3 :: world where
  "world3 = world1\<lparr>buckets := [BUCKET_NAME]\<rparr>"

definition one_id :: "uuid_str list" where
  "one_id = [''00000000-0000-4000-8000-000000000000'']"

text \<open>
  A world in which the first two calls into the storage client succeed and every later
  one fails, and one in which only the third call fails.
\<close>

definition world4 :: world where
  "world4 = world3\<lparr>fault_plan := (\<lambda>k. if k < 2 then None else Some ''503 Service Unavailable'')\<rparr>"

definition world5 :: world where
  "world5 = world3\<lparr>fault_plan := (\<lambda>k. if k = 2 then Some ''503 Service Unavailable'' else None)\<rparr>"

definition no_patients :: "patient dataframe" where
  "no_patients = DataFrame patient_keys []"

definition no_claims :: arrow_table where
  "no_claims = \<lparr>tbl_schema = claims_schema, tbl_columns = claim_columns []\<rparr>"

section \<open>Sequencing and the random source\<close>

lemma seq_bindE:
  assumes "seq_bind m f w = (Inr y, w')"
  obtains x w1 where "m w = (Inr x, w1)" and "f x w1 = (Inr y, w')"
  using assms by (auto simp: seq_bind_def split: prod.splits sum.splits)

lemma seq_bind_InlD:
  "seq_bind m f w = (Inl e, w') \<Longrightarrow>
     m w = (Inl e, w') \<or> (\<exists>x w1. m w = (Inr x, w1) \<and> f x w1 = (Inl e, w'))"
  by (auto simp: seq_bind_def split: prod.splits sum.splits)

lemma lift_io_InrD: "lift_io p w = (Inr x, w') \<Longrightarrow> p w = (x, w')"
  by (auto simp: lift_io_def split: prod.splits)

lemma lift_io_not_Inl [simp]: "lift_io p w \<noteq> (Inl e, w')"
  by (auto simp: lift_io_def split: prod.splits)

lemma pure_io_eq: "pure_io r w = (r', w') \<longleftrightarrow> r = r' \<and> w = w'"
  by (auto simp: pure_io_def)

lemma getitem_Inr: "getitem d k = Inr v \<longleftrightarrow> map_of d k = Some v"
  by (simp add: getitem_def split: option.splits)

lemma getitem_Inl: "getitem d k = Inl e \<longleftrightarrow> map_of d k = None \<and> e = KeyError k"
  by (auto simp: getitem_def split: option.splits)

lemma next_draw_snd: "next_draw w = (r, w') \<Longrightarrow> w' = w\<lparr>cursor := Suc (cursor w)\<rparr>"
  by (auto simp: next_draw_def)

lemma random_randint_snd: "random_randint a b w = (x, w') \<Longrightarrow> w' = w\<lparr>cursor := Suc (cursor w)\<rparr>"
  by (auto simp: random_randint_def next_draw_def)

lemma random_uniform_snd: "random_uniform a b w = (x, w') \<Longrightarrow> w' = w\<lparr>cursor := Suc (cursor w)\<rparr>"
  by (auto simp: random_uniform_def random_random_def next_draw_def)

lemma fake_first_name_snd: "fake_first_name w = (x, w') \<Longrightarrow> w' = w\<lparr>cursor := Suc (cursor w)\<rparr>"
  by (auto simp: fake_first_name_def next_draw_def)

lemma fake_last_name_snd: "fake_last_name w = (x, w') \<Longrightarrow> w' = w\<lparr>cursor := Suc (cursor w)\<rparr>"
  by (auto simp: fake_last_name_def next_draw_def)

lemma fake_zipcode_snd: "fake_zipcode w = (x, w') \<Longrightarrow> w' = w\<lparr>cursor := Suc (cursor w)\<rparr>"
  by (auto simp: fake_zipcode_def random_randint_def next_draw_def)

lemma fake_uuid4_snd: "fake_uuid4 w = (x, w') \<Longrightarrow> w' = w\<lparr>cursor := Suc (cursor w)\<rparr>"
  by (auto simp: fake_uuid4_def next_draw_def)

lemma sample_date_Inr: "sample_date w = (Inr d, w') \<Longrightarrow> w' = w\<lparr>cursor := Suc (cursor w)\<rparr>"
  by (auto simp: sample_date_def lift_io_def fake_date_between_def random_randint_def next_draw_def)

lemma sample_date_not_Inl [simp]: "sample_date w \<noteq> (Inl e, w')"
  by (auto simp: sample_date_def)

lemma random_choice_Inr:
  "random_choice xs w = (Inr x, w') \<Longrightarrow> x \<in> set xs \<and> w' = w\<lparr>cursor := Suc (cursor w)\<rparr>"
  by (auto simp: random_choice_def next_draw_def split: if_splits)

lemma random_choice_Inl:
  "random_choice xs w = (Inl e, w') \<Longrightarrow> xs = [] \<and> e = IndexError \<and> w' = w"
  by (auto simp: random_choice_def next_draw_def split: if_splits)

lemma unique_rounds_Inr:
  "unique_rounds k v0 w = (Inr v, w') \<Longrightarrow>
     v \<notin> set (seen_uuid4 w) \<and> seen_uuid4 w' = seen_uuid4 w"
proof (induction k arbitrary: v0 w)
  case 0
  then show ?case by simp
next
  case (Suc k)
  obtain v1 w1 where d: "fake_uuid4 w = (v1, w1)" by (cases "fake_uuid4 w")
  then have s: "seen_uuid4 w1 = seen_uuid4 w" by (auto dest: fake_uuid4_snd)
  show ?case
  proof (cases "v0 \<notin> set (seen_uuid4 w)")
    case True
    with Suc.prems show ?thesis by auto
  next
    case False
    with Suc.prems d have "unique_rounds k v1 w1 = (Inr v, w')" by simp
    from Suc.IH [OF this] s show ?thesis by simp
  qed
qed

lemma unique_rounds_Inl: "unique_rounds k v0 w = (Inl e, w') \<Longrightarrow> e = UniquenessException"
proof (induction k arbitrary: v0 w)
  case 0
  then show ?case by simp
next
  case (Suc k)
  then show ?case by (auto split: if_splits prod.splits)
qed

lemma unique_rounds_numeral:
  "unique_rounds (numeral k) retval w =
     (if retval \<notin> set (seen_uuid4 w) then (Inr retval, w)
      else case fake_uuid4 w of (v, w') \<Rightarrow> unique_rounds (pred_numeral k) v w')"
  by (metis unique_rounds.simps(2) numeral_eq_Suc)

lemma fake_unique_uuid4_Inr:
  "fake_unique_uuid4 w = (Inr v, w') \<Longrightarrow>
     v \<notin> set (seen_uuid4 w) \<and> seen_uuid4 w' = v # seen_uuid4 w"
  by (auto simp: fake_unique_uuid4_def split: prod.splits sum.splits
           dest!: unique_rounds_Inr fake_uuid4_snd)

lemma fake_unique_uuid4_Inl: "fake_unique_uuid4 w = (Inl e, w') \<Longrightarrow> e = UniquenessException"
  by (auto simp: fake_unique_uuid4_def split: prod.splits sum.splits dest: unique_rounds_Inl)

text \<open>When the first candidate is new it is returned, after one draw.\<close>

lemma fake_unique_uuid4_first:
  assumes "uuid_str_of (uuid4_int (entropy w (cursor w))) \<notin> set (seen_uuid4 w)"
  shows "fake_unique_uuid4 w =
           (Inr (uuid_str_of (uuid4_int (entropy w (cursor w)))),
            w\<lparr>cursor := Suc (cursor w),
              seen_uuid4 := uuid_str_of (uuid4_int (entropy w (cursor w))) # seen_uuid4 w\<rparr>)"
  using assms
  by (simp add: fake_unique_uuid4_def fake_uuid4_def next_draw_def unique_rounds_numeral)

lemma patient_round_Inr:
  assumes "patient_round w = (Inr p, w')"
  shows "patient_id p \<notin> set (seen_uuid4 w) \<and> seen_uuid4 w' = patient_id p # seen_uuid4 w"
proof -
  from assms obtain w1 where u: "fake_unique_uuid4 w = (Inr (patient_id p), w1)"
    and s: "seen_uuid4 w' = seen_uuid4 w1"
    unfolding patient_round_def
    by (elim seq_bindE)
       (auto simp: return_io_def
             dest!: lift_io_InrD fake_first_name_snd fake_last_name_snd random_randint_snd
                    fake_zipcode_snd random_choice_Inr sample_date_Inr)
  from fake_unique_uuid4_Inr [OF u] s show ?thesis by simp
qed

lemma patient_round_Inl: "patient_round w = (Inl e, w') \<Longrightarrow> e = UniquenessException"
  unfolding patient_round_def
  by (auto simp: return_io_def dest!: seq_bind_InlD fake_unique_uuid4_Inl random_choice_Inl)

lemma patients_loop_Inr:
  "patients_loop k acc w = (Inr ps, w') \<Longrightarrow>
     \<exists>new. ps = acc @ new \<and> length new = k
       \<and> seen_uuid4 w' = rev (map patient_id new) @ seen_uuid4 w
       \<and> distinct (map patient_id new)
       \<and> set (map patient_id new) \<inter> set (seen_uuid4 w) = {}"
proof (induction k arbitrary: acc w)
  case 0
  then show ?case by simp
next
  case (Suc k)
  from Suc.prems obtain p w1 where r: "patient_round w = (Inr p, w1)"
    and l: "patients_loop k (acc @ [p]) w1 = (Inr ps, w')"
    by (auto split: prod.splits sum.splits)
  from patient_round_Inr [OF r]
  have f: "patient_id p \<notin> set (seen_uuid4 w)" and s: "seen_uuid4 w1 = patient_id p # seen_uuid4 w"
    by simp_all
  from Suc.IH [OF l] obtain new where n: "ps = (acc @ [p]) @ new" "length new = k"
    "seen_uuid4 w' = rev (map patient_id new) @ seen_uuid4 w1"
    "distinct (map patient_id new)"
    "set (map patient_id new) \<inter> set (seen_uuid4 w1) = {}"
    by blast
  have "ps = acc @ (p # new)" using n(1) by simp
  moreover have "length (p # new) = Suc k" using n(2) by simp
  moreover have "seen_uuid4 w' = rev (map patient_id (p # new)) @ seen_uuid4 w"
    using n(3) s by simp
  moreover have "distinct (map patient_id (p # new))" using n(4,5) s by auto
  moreover have "set (map patient_id (p # new)) \<inter> set (seen_uuid4 w) = {}"
    using n(5) s f by auto
  ultimately show ?case by blast
qed

lemma patients_loop_Inl: "patients_loop k acc w = (Inl e, w') \<Longrightarrow> e = UniquenessException"
proof (induction k arbitrary: acc w)
  case 0
  then show ?case by simp
next
  case (Suc k)
  then show ?case by (auto split: prod.splits sum.splits dest: patient_round_Inl)
qed

section \<open>Evaluation on numerals\<close>

lemma hex_width_numeral:
  "hex_width (numeral k) n = hex_width (pred_numeral k) (n div 16) @ [hex_digit n]"
  by (metis hex_width.simps(2) numeral_eq_Suc)

lemmas uuid_eval = uuid4_int_def uuid_str_of_def hex_digit_def hex_width_numeral

lemma first_candidates_numeral:
  "first_candidates ent c (numeral k) =
     uuid_str_of (uuid4_int (ent c)) # first_candidates ent (c + 8) (pred_numeral k)"
  by (metis first_candidates.simps(2) numeral_eq_Suc)

lemma claim_candidates_numeral:
  "claim_candidates ent c (numeral k) =
     uuid_str_of (uuid4_int (ent c)) # uuid_str_of (uuid4_int (ent (c + 2)))
       # claim_candidates ent (c + 8) (pred_numeral k)"
  by (metis claim_candidates.simps(2) numeral_eq_Suc)

section \<open>The patient generator\<close>

lemma patient_round_first:
  assumes "uuid_str_of (uuid4_int (entropy w (cursor w))) \<notin> set (seen_uuid4 w)"
  shows "\<exists>p. patient_round w =
           (Inr p, w\<lparr>cursor := cursor w + 8,
                     seen_uuid4 := uuid_str_of (uuid4_int (entropy w (cursor w))) # seen_uuid4 w\<rparr>)
         \<and> patient_id p = uuid_str_of (uuid4_int (entropy w (cursor w)))"
  by (simp add: patient_round_def seq_bind_def fake_unique_uuid4_first [OF assms] lift_io_def
        return_io_def fake_first_name_def fake_last_name_def fake_zipcode_def random_randint_def
        random_choice_def sample_date_def fake_date_between_def next_draw_def)

lemma length_first_candidates: "length (first_candidates ent c n) = n"
  by (induction n arbitrary: c) simp_all

lemma patients_loop_first:
  "distinct (first_candidates (entropy w) (cursor w) n) \<Longrightarrow>
   set (first_candidates (entropy w) (cursor w) n) \<inter> set (seen_uuid4 w) = {} \<Longrightarrow>
   \<exists>ps. patients_loop n acc w =
          (Inr (acc @ ps),
           w\<lparr>cursor := cursor w + 8 * n,
             seen_uuid4 := rev (first_candidates (entropy w) (cursor w) n) @ seen_uuid4 w\<rparr>)
        \<and> map patient_id ps = first_candidates (entropy w) (cursor w) n"
proof (induction n arbitrary: acc w)
  case 0
  then show ?case by simp
next
  case (Suc n)
  let ?u = "uuid_str_of (uuid4_int (entropy w (cursor w)))"
  let ?w1 = "w\<lparr>cursor := cursor w + 8, seen_uuid4 := ?u # seen_uuid4 w\<rparr>"
  from Suc.prems have fresh: "?u \<notin> set (seen_uuid4 w)" by auto
  from patient_round_first [OF fresh] obtain p where r: "patient_round w = (Inr p, ?w1)"
    and p: "patient_id p = ?u" by blast
  have "distinct (first_candidates (entropy ?w1) (cursor ?w1) n)"
    using Suc.prems(1) by simp
  moreover have "set (first_candidates (entropy ?w1) (cursor ?w1) n) \<inter> set (seen_uuid4 ?w1) = {}"
    using Suc.prems by auto
  ultimately obtain ps where l: "patients_loop n (acc @ [p]) ?w1 =
          (Inr ((acc @ [p]) @ ps),
           ?w1\<lparr>cursor := cursor ?w1 + 8 * n,
             seen_uuid4 := rev (first_candidates (entropy ?w1) (cursor ?w1) n) @ seen_uuid4 ?w1\<rparr>)"
    and m: "map patient_id ps = first_candidates (entropy ?w1) (cursor ?w1) n"
    using Suc.IH by blast
  from r l have "patients_loop (Suc n) acc w =
          (Inr (acc @ (p # ps)),
           w\<lparr>cursor := cursor w + 8 * Suc n,
             seen_uuid4 := rev (first_candidates (entropy w) (cursor w) (Suc n)) @ seen_uuid4 w\<rparr>)"
    by (simp add: add.assoc)
  moreover from p m have "map patient_id (p # ps) = first_candidates (entropy w) (cursor w) (Suc n)"
    by simp
  ultimately show ?case by blast
qed

lemma generate_patients_Inr:
  assumes "generate_patients n w = (Inr df, w')"
  shows "length (df_rows df) = n" and "distinct (map patient_id (df_rows df))"
    and "seen_uuid4 w' = rev (map patient_id (df_rows df)) @ seen_uuid4 w"
    and "set (map patient_id (df_rows df)) \<inter> set (seen_uuid4 w) = {}"
proof -
  from assms obtain ps where l: "patients_loop n [] (w\<lparr>stdout := stdout w
          @ [patients_banner]\<rparr>) = (Inr ps, w')"
    and d: "df = DataFrame patient_keys ps"
    unfolding generate_patients_def
    by (elim seq_bindE) (auto simp: print_def return_io_def patients_banner_def)
  from patients_loop_Inr [OF l] d
  show "length (df_rows df) = n" and "distinct (map patient_id (df_rows df))"
    and "seen_uuid4 w' = rev (map patient_id (df_rows df)) @ seen_uuid4 w"
    and "set (map patient_id (df_rows df)) \<inter> set (seen_uuid4 w) = {}"
    by (auto simp: DataFrame_def)
qed

lemma generate_patients_Inl:
  "generate_patients n w = (Inl e, w') \<Longrightarrow> e = UniquenessException"
  unfolding generate_patients_def
  by (auto simp: print_def return_io_def dest!: seq_bind_InlD patients_loop_Inl)

lemma generate_patients_first:
  assumes "distinct (first_candidates (entropy w) (cursor w) n)"
    and "set (first_candidates (entropy w) (cursor w) n) \<inter> set (seen_uuid4 w) = {}"
  shows "\<exists>df. generate_patients n w =
           (Inr df,
            w\<lparr>stdout := stdout w @ [patients_banner], cursor := cursor w + 8 * n,
              seen_uuid4 := rev (first_candidates (entropy w) (cursor w) n) @ seen_uuid4 w\<rparr>)
         \<and> df_columns df = (if n = 0 then [] else patient_keys)
         \<and> map patient_id (df_rows df) = first_candidates (entropy w) (cursor w) n"
proof -
  let ?w0 = "w\<lparr>stdout := stdout w @ [patients_banner]\<rparr>"
  have "distinct (first_candidates (entropy ?w0) (cursor ?w0) n)" using assms(1) by simp
  moreover have "set (first_candidates (entropy ?w0) (cursor ?w0) n) \<inter> set (seen_uuid4 ?w0) = {}"
    using assms(2) by simp
  ultimately obtain ps where l: "patients_loop n [] ?w0 =
          (Inr ([] @ ps),
           ?w0\<lparr>cursor := cursor ?w0 + 8 * n,
             seen_uuid4 := rev (first_candidates (entropy ?w0) (cursor ?w0) n) @ seen_uuid4 ?w0\<rparr>)"
    and m: "map patient_id ps = first_candidates (entropy ?w0) (cursor ?w0) n"
    using patients_loop_first [of ?w0 n "[]"] by blast
  from m have "length ps = n" by (metis length_map length_first_candidates)
  then have "(ps = []) = (n = 0)" by auto
  with l m show ?thesis
    by (simp add: generate_patients_def seq_bind_def print_def return_io_def DataFrame_def
          patients_banner_def)
qed

lemma unique_rounds_stuck:
  "(\<And>i. uuid_str_of (uuid4_int (entropy w i)) \<in> set (seen_uuid4 w)) \<Longrightarrow>
   v \<in> set (seen_uuid4 w) \<Longrightarrow>
   \<exists>w'. unique_rounds k v w = (Inl UniquenessException, w')"
proof (induction k arbitrary: v w)
  case 0
  then show ?case by simp
next
  case (Suc k)
  let ?w1 = "w\<lparr>cursor := Suc (cursor w)\<rparr>"
  have "\<exists>w'. unique_rounds k (uuid_str_of (uuid4_int (entropy w (cursor w)))) ?w1
           = (Inl UniquenessException, w')"
    using Suc.prems by (intro Suc.IH) simp_all
  with Suc.prems(2) show ?case by (simp add: fake_uuid4_def next_draw_def)
qed

lemma fake_unique_uuid4_stuck:
  assumes "\<And>i. uuid_str_of (uuid4_int (entropy w i)) \<in> set (seen_uuid4 w)"
  shows "\<exists>w'. fake_unique_uuid4 w = (Inl UniquenessException, w')"
proof -
  let ?w1 = "w\<lparr>cursor := Suc (cursor w)\<rparr>"
  have "\<exists>w'. unique_rounds 999 (uuid_str_of (uuid4_int (entropy w (cursor w)))) ?w1
           = (Inl UniquenessException, w')"
    using assms by (intro unique_rounds_stuck) simp_all
  then show ?thesis by (auto simp: fake_unique_uuid4_def fake_uuid4_def next_draw_def)
qed

text \<open>
  C1.  For every number of records \<open>n\<close> and every state of the random source, a call of
  \<open>generate_patients\<close> that returns gives exactly \<open>n\<close> records whose \<open>patient_id\<close> are
  pairwise different; the only exception it can raise is the \<open>UniquenessException\<close> of the
  identifier source, after 1000 draws without a new value; and it does return whenever the
  first candidates of the rounds differ from each other and from the values seen so far.
\<close>

theorem generate_patients_unique:
  "(generate_patients n w = (Inr df, w') \<longrightarrow>
      length (df_rows df) = n \<and> distinct (map patient_id (df_rows df)))
   \<and> (generate_patients n w = (Inl e, w') \<longrightarrow> e = UniquenessException)
   \<and> (distinct (first_candidates (entropy w) (cursor w) n)
        \<and> set (first_candidates (entropy w) (cursor w) n) \<inter> set (seen_uuid4 w) = {}
      \<longrightarrow> (\<exists>df w'. generate_patients n w = (Inr df, w')))"
  using generate_patients_Inr(1,2) generate_patients_Inl generate_patients_first by blast

lemma world1_candidates:
  "first_candidates (entropy world1) (cursor world1) 3 =
     [''00000000-0000-4000-8000-000000000000'', ''00000000-0000-4000-8000-000000000008'',
      ''00000000-0000-4000-8000-000000000010'']"
  by (simp add: world1_def numeral_3_eq_3 uuid_eval)

theorem generate_patients_unique_witness:
  "(\<exists>df w'. generate_patients 3 world1 = (Inr df, w') \<and> length (df_rows df) = 3
       \<and> distinct (map patient_id (df_rows df)))
   \<and> (\<exists>w'. generate_patients 2 world2 = (Inl UniquenessException, w'))"
proof
  have c: "distinct (first_candidates (entropy world1) (cursor world1) 3)
        \<and> set (first_candidates (entropy world1) (cursor world1) 3) \<inter> set (seen_uuid4 world1) = {}"
    by (simp add: world1_candidates) (simp add: world1_def)
  with generate_patients_unique [of 3 world1]
  obtain df w' where g: "generate_patients 3 world1 = (Inr df, w')" by blast
  with generate_patients_unique [of 3 world1 df w']
  show "\<exists>df w'. generate_patients 3 world1 = (Inr df, w') \<and> length (df_rows df) = 3
       \<and> distinct (map patient_id (df_rows df))" by blast
next
  let ?w0 = "world2\<lparr>stdout := stdout world2 @ [patients_banner]\<rparr>"
  have "uuid_str_of (uuid4_int (entropy ?w0 (cursor ?w0))) \<notin> set (seen_uuid4 ?w0)"
    by (simp add: world2_def world1_def)
  from patient_round_first [OF this] obtain p where
    r: "patient_round ?w0 = (Inr p, ?w0\<lparr>cursor := cursor ?w0 + 8,
          seen_uuid4 := uuid_str_of (uuid4_int (entropy ?w0 (cursor ?w0))) # seen_uuid4 ?w0\<rparr>)"
    by blast
  let ?w1 = "?w0\<lparr>cursor := cursor ?w0 + 8,
          seen_uuid4 := uuid_str_of (uuid4_int (entropy ?w0 (cursor ?w0))) # seen_uuid4 ?w0\<rparr>"
  have "\<exists>w'. fake_unique_uuid4 ?w1 = (Inl UniquenessException, w')"
    by (rule fake_unique_uuid4_stuck) (simp add: world2_def world1_def)
  then obtain w' where "patient_round ?w1 = (Inl UniquenessException, w')"
    by (auto simp: patient_round_def seq_bind_def)
  with r have "generate_patients 2 world2 = (Inl UniquenessException, w')"
    by (simp add: generate_patients_def seq_bind_def print_def numeral_2_eq_2 patients_banner_def)
  with generate_patients_unique [of 2 world2 _ w' UniquenessException]
  show "\<exists>w'. generate_patients 2 world2 = (Inl UniquenessException, w')" by blast
qed

section \<open>Text without newlines\<close>

lemma hex_digit_not_nl: "hex_digit d \<noteq> CHR 0x0A" "CHR 0x0A \<noteq> hex_digit d"
proof -
  have "hex_digit d \<in> set ''0123456789abcdef''"
    unfolding hex_digit_def by (rule nth_mem) simp
  then show "hex_digit d \<noteq> CHR 0x0A" and "CHR 0x0A \<noteq> hex_digit d" by auto
qed

lemma digit_char_not_nl: "digit_char d \<noteq> CHR 0x0A" "CHR 0x0A \<noteq> digit_char d"
proof -
  have "digit_char d \<in> set ''0123456789''"
    unfolding digit_char_def by (rule nth_mem) simp
  then show "digit_char d \<noteq> CHR 0x0A" and "CHR 0x0A \<noteq> digit_char d" by auto
qed

lemma hex_width_no_nl: "CHR 0x0A \<notin> set (hex_width k n)"
  by (induction k arbitrary: n) (auto simp: hex_digit_not_nl)

lemma str_nat_no_nl: "CHR 0x0A \<notin> set (str_nat n)"
proof (induction n rule: str_nat.induct)
  case (1 n)
  then show ?case by (subst str_nat.simps) (auto simp: digit_char_not_nl)
qed

lemma str_nat_not_Nil: "str_nat n \<noteq> []"
  by (subst str_nat.simps) simp

lemma str_int_no_nl: "CHR 0x0A \<notin> set (str_int i)"
  by (simp add: str_int_def str_nat_no_nl)

lemma repr_tenths_no_nl: "CHR 0x0A \<notin> set (repr_tenths x)"
  by (simp add: repr_tenths_def Let_def str_nat_no_nl digit_char_not_nl)

lemma json_escape_char_no_nl: "CHR 0x0A \<notin> set (json_escape_char c)"
  by (simp add: json_escape_char_def hex_width_no_nl)

lemma json_string_no_nl: "CHR 0x0A \<notin> set (json_string s)"
  by (simp add: json_string_def json_escape_char_no_nl)

lemma json_item_no_nl: "CHR 0x0A \<notin> set v \<Longrightarrow> CHR 0x0A \<notin> set (json_item k v)"
  by (simp add: json_item_def json_string_no_nl)

lemma json_dumps_no_nl: "CHR 0x0A \<notin> set (json_dumps r)"
  by (simp add: json_dumps_def json_item_no_nl json_string_no_nl str_int_no_nl repr_tenths_no_nl)

lemma json_dumps_not_Nil: "json_dumps r \<noteq> []"
  by (simp add: json_dumps_def)

subsection \<open>Joining and splitting lines\<close>

lemma split_lines_no_nl:
  "CHR 0x0A \<notin> set u \<Longrightarrow> split_lines cur u = (if cur @ u = [] then [] else [cur @ u])"
  by (induction u arbitrary: cur) auto

lemma split_lines_line:
  "CHR 0x0A \<notin> set u \<Longrightarrow> split_lines cur (u @ CHR 0x0A # rest) = (cur @ u) # split_lines [] rest"
  by (induction u arbitrary: cur) auto

lemma lines_of_join:
  "\<forall>u \<in> set us. CHR 0x0A \<notin> set u \<and> u \<noteq> [] \<Longrightarrow> lines_of (str_join [CHR 0x0A] us) = us"
proof (induction "[CHR 0x0A]" us rule: str_join.induct)
  case 1
  then show ?case by (simp add: lines_of_def)
next
  case (2 u)
  then show ?case by (simp add: lines_of_def split_lines_no_nl)
next
  case (3 u v vs)
  then show ?case by (simp add: lines_of_def split_lines_line)
qed

section \<open>The generator of health records\<close>

lemma ehr_round_Inr:
  assumes "ehr_round codes ids w = (Inr r, w')"
  shows "ehr_patient_id r \<in> set ids" and "diagnosis_code r \<in> set codes"
    and "map_of diagnosis_table (diagnosis_code r) = Some (diagnosis_desc r)"
    and "seen_uuid4 w' = seen_uuid4 w"
  using assms unfolding ehr_round_def
  by (elim seq_bindE;
      auto simp: return_io_def pure_io_eq getitem_Inr
           dest!: lift_io_InrD random_randint_snd random_uniform_snd random_choice_Inr
                  sample_date_Inr)+

lemma ehr_round_Inl:
  assumes "ehr_round codes ids w = (Inl e, w')"
  shows "(ids = [] \<and> e = IndexError \<and> w' = w) \<or> (codes = [] \<and> e = IndexError)
         \<or> (\<exists>c \<in> set codes. map_of diagnosis_table c = None \<and> e = KeyError c)"
  using assms unfolding ehr_round_def
  by (auto simp: return_io_def pure_io_eq getitem_Inl
           dest!: seq_bind_InlD random_choice_Inl random_choice_Inr)

lemma ehr_round_empty: "ehr_round codes [] w = (Inl IndexError, w)"
  by (simp add: ehr_round_def seq_bind_def random_choice_def)

text \<open>
  A round of seven draws: the third one chooses the diagnosis code, and the round ends
  there when the table has no entry for it.
\<close>

lemma ehr_round_missing:
  assumes "ids \<noteq> []" and "codes \<noteq> []"
    and "map_of diagnosis_table (codes ! (entropy w (cursor w + 2) mod length codes)) = None"
  shows "ehr_round codes ids w =
           (Inl (KeyError (codes ! (entropy w (cursor w + 2) mod length codes))),
            w\<lparr>cursor := cursor w + 3\<rparr>)"
  using assms
  by (simp add: ehr_round_def seq_bind_def random_choice_def sample_date_def lift_io_def
        fake_date_between_def random_randint_def next_draw_def pure_io_def getitem_def)

lemma ehr_round_ok:
  assumes "ids \<noteq> []" and "codes \<noteq> []" and "set codes \<subseteq> fst ` set diagnosis_table"
  shows "\<exists>r. ehr_round codes ids w = (Inr r, w\<lparr>cursor := cursor w + 7\<rparr>)"
proof -
  let ?c = "codes ! (entropy w (cursor w + 2) mod length codes)"
  from assms(2) have "?c \<in> set codes" by simp
  with assms(3) obtain d where "map_of diagnosis_table ?c = Some d"
    by (metis subsetD map_of_eq_None_iff not_Some_eq)
  with assms(1,2) show ?thesis
    by (simp add: ehr_round_def seq_bind_def random_choice_def sample_date_def lift_io_def
          fake_date_between_def random_randint_def random_uniform_def random_random_def
          next_draw_def pure_io_def getitem_def return_io_def)
qed

lemma ehr_loop_Inr:
  "ehr_loop codes k ids acc w = (Inr units, w') \<Longrightarrow>
     \<exists>rs. units = acc @ map json_dumps rs \<and> length rs = k
       \<and> (\<forall>r \<in> set rs. ehr_patient_id r \<in> set ids \<and> diagnosis_code r \<in> set codes
             \<and> map_of diagnosis_table (diagnosis_code r) = Some (diagnosis_desc r))
       \<and> seen_uuid4 w' = seen_uuid4 w"
proof (induction k arbitrary: acc w)
  case 0
  then show ?case by simp
next
  case (Suc k)
  from Suc.prems obtain r w1 where r: "ehr_round codes ids w = (Inr r, w1)"
    and l: "ehr_loop codes k ids (acc @ [json_dumps r]) w1 = (Inr units, w')"
    by (auto split: prod.splits sum.splits)
  from Suc.IH [OF l] obtain rs where rs: "units = (acc @ [json_dumps r]) @ map json_dumps rs"
    "length rs = k"
    "\<forall>r \<in> set rs. ehr_patient_id r \<in> set ids \<and> diagnosis_code r \<in> set codes
             \<and> map_of diagnosis_table (diagnosis_code r) = Some (diagnosis_desc r)"
    "seen_uuid4 w' = seen_uuid4 w1"
    by blast
  have "units = acc @ map json_dumps (r # rs)" using rs(1) by simp
  moreover have "length (r # rs) = Suc k" using rs(2) by simp
  moreover have "\<forall>r \<in> set (r # rs). ehr_patient_id r \<in> set ids \<and> diagnosis_code r \<in> set codes
             \<and> map_of diagnosis_table (diagnosis_code r) = Some (diagnosis_desc r)"
    using rs(3) ehr_round_Inr(1,2,3) [OF r] by simp
  moreover have "seen_uuid4 w' = seen_uuid4 w" using rs(4) ehr_round_Inr(4) [OF r] by simp
  ultimately show ?case by blast
qed

lemma ehr_loop_Inl:
  "ehr_loop codes k ids acc w = (Inl e, w') \<Longrightarrow>
     (ids = [] \<and> e = IndexError \<and> w' = w) \<or> (codes = [] \<and> e = IndexError)
     \<or> (\<exists>c \<in> set codes. map_of diagnosis_table c = None \<and> e = KeyError c)"
proof (induction k arbitrary: acc w)
  case 0
  then show ?case by simp
next
  case (Suc k)
  show ?case
  proof (cases "ehr_round codes ids w")
    case (Pair res w1)
    show ?thesis
    proof (cases res)
      case (Inl e1)
      with Pair Suc.prems have "ehr_round codes ids w = (Inl e, w')" by simp
      then show ?thesis by (rule ehr_round_Inl)
    next
      case (Inr r)
      with Pair Suc.prems have l: "ehr_loop codes k ids (acc @ [json_dumps r]) w1 = (Inl e, w')"
        by simp
      from Pair Inr have "ids \<noteq> []" by (auto simp: ehr_round_empty)
      with Suc.IH [OF l] show ?thesis by blast
    qed
  qed
qed

lemma ehr_loop_ok:
  assumes "ids \<noteq> []" and "codes \<noteq> []" and "set codes \<subseteq> fst ` set diagnosis_table"
  shows "\<exists>units. ehr_loop codes k ids acc w = (Inr units, w\<lparr>cursor := cursor w + 7 * k\<rparr>)"
proof (induction k arbitrary: acc w)
  case 0
  then show ?case by simp
next
  case (Suc k)
  from ehr_round_ok [OF assms] obtain r where
    r: "ehr_round codes ids w = (Inr r, w\<lparr>cursor := cursor w + 7\<rparr>)" by blast
  from Suc.IH [of "acc @ [json_dumps r]" "w\<lparr>cursor := cursor w + 7\<rparr>"] obtain units where
    "ehr_loop codes k ids (acc @ [json_dumps r]) (w\<lparr>cursor := cursor w + 7\<rparr>)
       = (Inr units, w\<lparr>cursor := cursor w + 7\<rparr>\<lparr>cursor := cursor (w\<lparr>cursor := cursor w + 7\<rparr>) + 7 * k\<rparr>)"
    by blast
  with r show ?case by (simp add: add.assoc)
qed

lemma ehr_codes_known: "set ehr_codes \<subseteq> fst ` set diagnosis_table"
  by (simp add: ehr_codes_def diagnosis_table_def)

lemma generate_ehr_from_eq:
  "generate_ehr_from codes n ids w = ehr_loop codes n ids [] (w\<lparr>stdout := stdout w @ [ehr_banner]\<rparr>)"
  by (simp add: generate_ehr_from_def seq_bind_def print_def ehr_banner_def)

lemma generate_ehr_from_Inr:
  assumes "generate_ehr_from codes n ids w = (Inr units, w')"
  shows "\<exists>rs. units = map json_dumps rs \<and> length rs = n
       \<and> (\<forall>r \<in> set rs. ehr_patient_id r \<in> set ids \<and> diagnosis_code r \<in> set codes
             \<and> map_of diagnosis_table (diagnosis_code r) = Some (diagnosis_desc r))
       \<and> seen_uuid4 w' = seen_uuid4 w"
  using ehr_loop_Inr [OF assms [unfolded generate_ehr_from_eq]] by simp

lemma generate_ehr_Inl:
  assumes "generate_ehr n ids w = (Inl e, w')"
  shows "ids = [] \<and> e = IndexError"
proof -
  from assms have "ehr_loop ehr_codes n ids [] (w\<lparr>stdout := stdout w @ [ehr_banner]\<rparr>) = (Inl e, w')"
    by (simp add: generate_ehr_def generate_ehr_from_eq)
  from ehr_loop_Inl [OF this] ehr_codes_known show ?thesis
    by (auto simp: ehr_codes_def dest!: map_of_eq_None_iff [THEN iffD1])
qed

lemma generate_ehr_ok:
  assumes "ids \<noteq> []"
  shows "\<exists>units. generate_ehr n ids w
           = (Inr units, w\<lparr>stdout := stdout w @ [ehr_banner], cursor := cursor w + 7 * n\<rparr>)"
proof -
  have "ehr_codes \<noteq> []" by (simp add: ehr_codes_def)
  from ehr_loop_ok [OF assms this ehr_codes_known, of n "[]" "w\<lparr>stdout := stdout w @ [ehr_banner]\<rparr>"]
  show ?thesis by (simp add: generate_ehr_def generate_ehr_from_eq)
qed

section \<open>The generator of claims\<close>

subsection \<open>Numbers\<close>

lemma random_random_range:
  assumes "random_random w = (u, w')"
  shows "0 \<le> u \<and> u < 1"
proof -
  let ?r = "entropy w (cursor w)"
  from assms have u: "u = of_nat (?r mod 2 ^ 53) / 2 ^ 53"
    by (simp add: random_random_def next_draw_def)
  have "?r mod 2 ^ 53 < 2 ^ 53" by simp
  then have "(of_nat (?r mod 2 ^ 53) :: rat) < of_nat (2 ^ 53)"
    by (simp only: of_nat_less_iff)
  then have "(of_nat (?r mod 2 ^ 53) :: rat) < 2 ^ 53" by simp
  then have "u < 1" unfolding u by (simp only: divide_less_eq_1_pos zero_less_power zero_less_numeral)
  moreover have "0 \<le> u" unfolding u by simp
  ultimately show ?thesis by simp
qed

lemma random_uniform_range:
  assumes "random_uniform a b w = (x, w')" and "a \<le> b"
  shows "a \<le> x \<and> x \<le> b"
proof -
  from assms(1) obtain u where u: "0 \<le> u" "u < 1" and x: "x = a + (b - a) * u"
    by (auto simp: random_uniform_def split: prod.splits dest: random_random_range)
  have "0 \<le> (b - a) * u" using u(1) assms(2) by simp
  moreover have "(b - a) * u \<le> (b - a) * 1"
    using u(2) assms(2) by (intro mult_left_mono) simp_all
  ultimately show ?thesis using x by simp
qed

lemma round_half_even_le: "y \<le> of_int m \<Longrightarrow> round_half_even y \<le> m"
proof -
  assume le: "y \<le> of_int m"
  then have f: "\<lfloor>y\<rfloor> \<le> m" by (simp add: floor_le_iff)
  show ?thesis
  proof (cases "y = of_int \<lfloor>y\<rfloor>")
    case True
    then show ?thesis using f by (simp add: round_half_even_def Let_def)
  next
    case False
    then have "of_int \<lfloor>y\<rfloor> < y" using of_int_floor_le [of y] by linarith
    with le have "rat_of_int \<lfloor>y\<rfloor> < of_int m" by linarith
    then have "\<lfloor>y\<rfloor> + 1 \<le> m" by simp
    with f show ?thesis by (simp add: round_half_even_def Let_def)
  qed
qed

lemma round_half_even_ge: "of_int m \<le> y \<Longrightarrow> m \<le> round_half_even y"
proof -
  assume "of_int m \<le> y"
  then have "m \<le> \<lfloor>y\<rfloor>" by (simp add: le_floor_iff)
  then show ?thesis by (simp add: round_half_even_def Let_def)
qed

lemma py_round_2_range:
  assumes "100 \<le> x" and "x \<le> 5000"
  shows "100 \<le> py_round x 2 \<and> py_round x 2 \<le> 5000"
proof -
  have "rat_of_int 10000 \<le> x * 10 ^ 2" using assms(1) by simp
  then have lo: "10000 \<le> round_half_even (x * 10 ^ 2)" by (rule round_half_even_ge)
  have "x * 10 ^ 2 \<le> rat_of_int 500000" using assms(2) by simp
  then have hi: "round_half_even (x * 10 ^ 2) \<le> 500000" by (rule round_half_even_le)
  from lo have "rat_of_int 10000 \<le> of_int (round_half_even (x * 10 ^ 2))"
    by (simp only: of_int_le_iff)
  moreover from hi have "rat_of_int (round_half_even (x * 10 ^ 2)) \<le> of_int 500000"
    by (simp only: of_int_le_iff)
  ultimately show ?thesis by (simp add: py_round_def)
qed

lemma round_half_even_of_int: "round_half_even (of_int k) = k"
  by (simp add: round_half_even_def)

lemma py_round_idem: "py_round (py_round x n) n = py_round x n"
  by (simp add: py_round_def round_half_even_of_int)

subsection \<open>One claim\<close>

lemma claim_round_Inr:
  assumes "claim_round ids w = (Inr c, w')"
  shows "claim_patient_id c \<in> set ids"
    and "claim_id c \<notin> set (seen_uuid4 w)"
    and "provider_id c \<notin> set (seen_uuid4 w)"
    and "claim_id c \<noteq> provider_id c"
    and "seen_uuid4 w' = provider_id c # claim_id c # seen_uuid4 w"
    and "\<exists>w3 d w4. sample_date w3 = (Inr d, w4) \<and> service_date c = datetime_combine d time_min"
    and "100 \<le> claim_amount c \<and> claim_amount c \<le> 5000"
    and "py_round (claim_amount c) 2 = claim_amount c"
proof -
  from assms obtain cid w1 pid w2 prov w3 sd w4 code w5 pcode w6 amount w7 st where
    s1: "fake_unique_uuid4 w = (Inr cid, w1)" and
    s2: "random_choice ids w1 = (Inr pid, w2)" and
    s3: "fake_unique_uuid4 w2 = (Inr prov, w3)" and
    s4: "sample_date w3 = (Inr sd, w4)" and
    s5: "random_choice [''E11.9'', ''I10'', ''J45'', ''N18.9''] w4 = (Inr code, w5)" and
    s6: "random_choice [''99213'', ''80053'', ''83036'', ''93000''] w5 = (Inr pcode, w6)" and
    s7: "lift_io (random_uniform 100 5000) w6 = (Inr amount, w7)" and
    s8: "random_choice [''Paid'', ''Denied'', ''Pending''] w7 = (Inr st, w')" and
    c: "c = \<lparr>claim_id = cid, claim_patient_id = pid, provider_id = prov,
              service_date = datetime_combine sd time_min, claim_diagnosis_code = code,
              procedure_code = pcode, claim_amount = py_round amount 2, status = st\<rparr>"
    unfolding claim_round_def return_io_def by (elim seq_bindE) auto
  from fake_unique_uuid4_Inr [OF s1]
  have a1: "cid \<notin> set (seen_uuid4 w)" "seen_uuid4 w1 = cid # seen_uuid4 w" by simp_all
  from random_choice_Inr [OF s2] have a2: "pid \<in> set ids" "seen_uuid4 w2 = seen_uuid4 w1"
    by simp_all
  from fake_unique_uuid4_Inr [OF s3]
  have a3: "prov \<notin> set (seen_uuid4 w2)" "seen_uuid4 w3 = prov # seen_uuid4 w2" by simp_all
  from sample_date_Inr [OF s4] have a4: "seen_uuid4 w4 = seen_uuid4 w3" by simp
  from random_choice_Inr [OF s5] have a5: "seen_uuid4 w5 = seen_uuid4 w4" by simp
  from random_choice_Inr [OF s6] have a6: "seen_uuid4 w6 = seen_uuid4 w5" by simp
  from s7 have u: "random_uniform 100 5000 w6 = (amount, w7)" by (rule lift_io_InrD)
  from random_uniform_snd [OF u] have a7: "seen_uuid4 w7 = seen_uuid4 w6" by simp
  from random_choice_Inr [OF s8] have a8: "seen_uuid4 w' = seen_uuid4 w7" by simp
  from random_uniform_range [OF u] have r: "100 \<le> amount \<and> amount \<le> 5000" by simp
  show "claim_patient_id c \<in> set ids" using c a2 by simp
  show "claim_id c \<notin> set (seen_uuid4 w)" using c a1 by simp
  show "provider_id c \<notin> set (seen_uuid4 w)" using c a1 a2 a3 by simp
  show "claim_id c \<noteq> provider_id c" using c a1 a2 a3 by auto
  show "seen_uuid4 w' = provider_id c # claim_id c # seen_uuid4 w"
    using c a1 a2 a3 a4 a5 a6 a7 a8 by simp
  show "\<exists>w3 d w4. sample_date w3 = (Inr d, w4) \<and> service_date c = datetime_combine d time_min"
    using c s4 by auto
  show "100 \<le> claim_amount c \<and> claim_amount c \<le> 5000"
    using c py_round_2_range r by simp
  show "py_round (claim_amount c) 2 = claim_amount c" using c by (simp add: py_round_idem)
qed

lemma claim_round_Inl:
  "claim_round ids w = (Inl e, w') \<Longrightarrow> e = UniquenessException \<or> (ids = [] \<and> e = IndexError)"
  unfolding claim_round_def
  by (auto simp: return_io_def dest!: seq_bind_InlD fake_unique_uuid4_Inl random_choice_Inl)

text \<open>When both first candidates are new the round takes eight draws.\<close>

lemma claim_round_first:
  assumes "ids \<noteq> []"
    and "uuid_str_of (uuid4_int (entropy w (cursor w))) \<notin> set (seen_uuid4 w)"
    and "uuid_str_of (uuid4_int (entropy w (cursor w + 2))) \<notin> set (seen_uuid4 w)"
    and "uuid_str_of (uuid4_int (entropy w (cursor w + 2))) \<noteq> uuid_str_of (uuid4_int (entropy w (cursor w)))"
  shows "\<exists>c. claim_round ids w =
           (Inr c, w\<lparr>cursor := cursor w + 8,
                     seen_uuid4 := uuid_str_of (uuid4_int (entropy w (cursor w + 2)))
                       # uuid_str_of (uuid4_int (entropy w (cursor w))) # seen_uuid4 w\<rparr>)"
  using assms unfolding claim_round_def
  by (simp add: seq_bind_def fake_unique_uuid4_first lift_io_def return_io_def
        random_randint_def random_choice_def random_uniform_def random_random_def
        sample_date_def fake_date_between_def next_draw_def)

subsection \<open>The loop\<close>

lemma claims_loop_Inr:
  "claims_loop k ids acc w = (Inr cs, w') \<Longrightarrow>
     \<exists>new. cs = acc @ new \<and> length new = k
       \<and> (\<forall>c \<in> set new. claim_patient_id c \<in> set ids
             \<and> (\<exists>w3 d w4. sample_date w3 = (Inr d, w4)
                    \<and> service_date c = datetime_combine d time_min)
             \<and> 100 \<le> claim_amount c \<and> claim_amount c \<le> 5000
             \<and> py_round (claim_amount c) 2 = claim_amount c)
       \<and> seen_uuid4 w' = rev (claim_uuids new) @ seen_uuid4 w
       \<and> distinct (claim_uuids new)
       \<and> set (claim_uuids new) \<inter> set (seen_uuid4 w) = {}"
proof (induction k arbitrary: acc w)
  case 0
  then show ?case by (simp add: claim_uuids_def)
next
  case (Suc k)
  from Suc.prems obtain c w1 where r: "claim_round ids w = (Inr c, w1)"
    and l: "claims_loop k ids (acc @ [c]) w1 = (Inr cs, w')"
    by (auto split: prod.splits sum.splits)
  note c = claim_round_Inr [OF r]
  from Suc.IH [OF l] obtain new where n: "cs = (acc @ [c]) @ new" "length new = k"
    "\<forall>c \<in> set new. claim_patient_id c \<in> set ids
             \<and> (\<exists>w3 d w4. sample_date w3 = (Inr d, w4)
                    \<and> service_date c = datetime_combine d time_min)
             \<and> 100 \<le> claim_amount c \<and> claim_amount c \<le> 5000
             \<and> py_round (claim_amount c) 2 = claim_amount c"
    "seen_uuid4 w' = rev (claim_uuids new) @ seen_uuid4 w1"
    "distinct (claim_uuids new)"
    "set (claim_uuids new) \<inter> set (seen_uuid4 w1) = {}"
    by blast
  have u: "claim_uuids (c # new) = claim_id c # provider_id c # claim_uuids new"
    by (simp add: claim_uuids_def)
  have "cs = acc @ (c # new)" using n(1) by simp
  moreover have "length (c # new) = Suc k" using n(2) by simp
  moreover have "\<forall>c \<in> set (c # new). claim_patient_id c \<in> set ids
             \<and> (\<exists>w3 d w4. sample_date w3 = (Inr d, w4)
                    \<and> service_date c = datetime_combine d time_min)
             \<and> 100 \<le> claim_amount c \<and> claim_amount c \<le> 5000
             \<and> py_round (claim_amount c) 2 = claim_amount c"
    using n(3) c(1,6,7,8) by simp
  moreover have "seen_uuid4 w' = rev (claim_uuids (c # new)) @ seen_uuid4 w"
    using n(4) c(5) u by simp
  moreover have "distinct (claim_uuids (c # new))"
    using n(5,6) c(4,5) u by auto
  moreover have "set (claim_uuids (c # new)) \<inter> set (seen_uuid4 w) = {}"
    using n(6) c(2,3,5) u by auto
  ultimately show ?case by blast
qed

lemma claims_loop_Inl:
  "claims_loop k ids acc w = (Inl e, w') \<Longrightarrow>
     e = UniquenessException \<or> (ids = [] \<and> e = IndexError)"
proof (induction k arbitrary: acc w)
  case 0
  then show ?case by simp
next
  case (Suc k)
  then show ?case by (auto split: prod.splits sum.splits dest: claim_round_Inl)
qed

lemma claims_loop_first:
  "ids \<noteq> [] \<Longrightarrow>
   distinct (claim_candidates (entropy w) (cursor w) n) \<Longrightarrow>
   set (claim_candidates (entropy w) (cursor w) n) \<inter> set (seen_uuid4 w) = {} \<Longrightarrow>
   \<exists>cs. claims_loop n ids acc w =
     (Inr cs, w\<lparr>cursor := cursor w + 8 * n,
               seen_uuid4 := rev (claim_candidates (entropy w) (cursor w) n) @ seen_uuid4 w\<rparr>)"
proof (induction n arbitrary: acc w)
  case 0
  then show ?case by simp
next
  case (Suc n)
  let ?u = "uuid_str_of (uuid4_int (entropy w (cursor w)))"
  let ?v = "uuid_str_of (uuid4_int (entropy w (cursor w + 2)))"
  let ?w1 = "w\<lparr>cursor := cursor w + 8, seen_uuid4 := ?v # ?u # seen_uuid4 w\<rparr>"
  from Suc.prems have "?u \<notin> set (seen_uuid4 w)" "?v \<notin> set (seen_uuid4 w)" "?v \<noteq> ?u"
    by auto
  from claim_round_first [OF Suc.prems(1) this] obtain c where
    r: "claim_round ids w = (Inr c, ?w1)" by blast
  have "distinct (claim_candidates (entropy ?w1) (cursor ?w1) n)"
    using Suc.prems(2) by simp
  moreover have "set (claim_candidates (entropy ?w1) (cursor ?w1) n) \<inter> set (seen_uuid4 ?w1) = {}"
    using Suc.prems(2,3) by auto
  ultimately obtain cs where "claims_loop n ids (acc @ [c]) ?w1 =
      (Inr cs, ?w1\<lparr>cursor := cursor ?w1 + 8 * n,
          seen_uuid4 := rev (claim_candidates (entropy ?w1) (cursor ?w1) n) @ seen_uuid4 ?w1\<rparr>)"
    using Suc.IH [OF Suc.prems(1)] by blast
  with r show ?case by (simp add: add.assoc)
qed

subsection \<open>The table\<close>

lemma convert_column_map:
  assumes "\<And>c. c \<in> set cs \<Longrightarrow>
             \<exists>v. getitem (claim_items c) name = Inr v \<and> to_arrow ty v = Inr (g c)"
  shows "convert_column name ty (map claim_items cs) = Inr (map g cs)"
  using assms
proof (induction cs)
  case Nil
  then show ?case by simp
next
  case (Cons c cs)
  from Cons.prems [of c] obtain v where
    v: "getitem (claim_items c) name = Inr v" "to_arrow ty v = Inr (g c)" by auto
  have "convert_column name ty (map claim_items cs) = Inr (map g cs)"
    by (rule Cons.IH) (simp add: Cons.prems)
  with v show ?case by simp
qed

lemma timestamp_ms_midnight: "timestamp_ms (datetime_combine d time_min) = Inr (d * 86400000)"
  by (simp add: timestamp_ms_def datetime_combine_def time_min_def)

lemma Table_from_pandas_claims:
  assumes "cs \<noteq> []"
    and "\<And>c. c \<in> set cs \<Longrightarrow> \<exists>d. service_date c = datetime_combine d time_min"
  shows "Table_from_pandas (DataFrame claim_keys cs) claims_schema
           = Inr \<lparr>tbl_schema = claims_schema, tbl_columns = claim_columns cs\<rparr>"
proof -
  let ?rs = "map claim_items cs"
  have c1: "convert_column ''claim_id'' ArrowString ?rs = Inr (map (\<lambda>c. AString (claim_id c)) cs)"
    by (rule convert_column_map) (simp add: claim_items_def getitem_def)
  have c2: "convert_column ''patient_id'' ArrowString ?rs
              = Inr (map (\<lambda>c. AString (claim_patient_id c)) cs)"
    by (rule convert_column_map) (simp add: claim_items_def getitem_def)
  have c3: "convert_column ''provider_id'' ArrowString ?rs
              = Inr (map (\<lambda>c. AString (provider_id c)) cs)"
    by (rule convert_column_map) (simp add: claim_items_def getitem_def)
  have c4: "convert_column ''service_date'' ArrowTimestampMs ?rs
              = Inr (map (\<lambda>c. ATimestampMs (dt_date (service_date c) * 86400000)) cs)"
  proof (rule convert_column_map)
    fix c assume "c \<in> set cs"
    with assms(2) obtain d where d: "service_date c = datetime_combine d time_min" by blast
    then have "dt_date (service_date c) = d" by (simp add: datetime_combine_def time_min_def)
    with d timestamp_ms_midnight [of d]
    show "\<exists>v. getitem (claim_items c) ''service_date'' = Inr v
            \<and> to_arrow ArrowTimestampMs v = Inr (ATimestampMs (dt_date (service_date c) * 86400000))"
      by (simp add: claim_items_def getitem_def)
  qed
  have c5: "convert_column ''diagnosis_code'' ArrowString ?rs
              = Inr (map (\<lambda>c. AString (claim_diagnosis_code c)) cs)"
    by (rule convert_column_map) (simp add: claim_items_def getitem_def)
  have c6: "convert_column ''procedure_code'' ArrowString ?rs
              = Inr (map (\<lambda>c. AString (procedure_code c)) cs)"
    by (rule convert_column_map) (simp add: claim_items_def getitem_def)
  have c7: "convert_column ''claim_amount'' ArrowFloat64 ?rs
              = Inr (map (\<lambda>c. AFloat64 (claim_amount c)) cs)"
    by (rule convert_column_map) (simp add: claim_items_def getitem_def)
  have c8: "convert_column ''status'' ArrowString ?rs = Inr (map (\<lambda>c. AString (status c)) cs)"
    by (rule convert_column_map) (simp add: claim_items_def getitem_def)
  show ?thesis
    using assms(1)
    by (simp add: Table_from_pandas_def DataFrame_def claims_schema_def claim_keys_def
          claim_columns_def c1 c2 c3 c4 c5 c6 c7 c8)
qed

lemma Table_from_pandas_no_rows:
  "Table_from_pandas (DataFrame claim_keys []) claims_schema
     = Inl (KeyError (''name claim_id present in the specified schema is not found in the columns or index''))"
  by (simp add: Table_from_pandas_def DataFrame_def claims_schema_def)

subsection \<open>The generator\<close>

lemma generate_claims_eq:
  "generate_claims n ids w =
     (case claims_loop n ids [] (w\<lparr>stdout := stdout w @ [claims_banner]\<rparr>) of
        (Inl e, w') \<Rightarrow> (Inl e, w')
      | (Inr cs, w') \<Rightarrow> (Table_from_pandas (DataFrame claim_keys cs) claims_schema, w'))"
  by (simp add: generate_claims_def seq_bind_def print_def pure_io_def claims_banner_def
        split: prod.splits sum.splits)

lemma generate_claims_Inr:
  assumes "generate_claims n ids w = (Inr t, w')"
  shows "\<exists>cs. t = \<lparr>tbl_schema = claims_schema, tbl_columns = claim_columns cs\<rparr>
       \<and> length cs = n \<and> 0 < n
       \<and> (\<forall>c \<in> set cs. claim_patient_id c \<in> set ids
             \<and> (\<exists>w3 d w4. sample_date w3 = (Inr d, w4)
                    \<and> service_date c = datetime_combine d time_min)
             \<and> 100 \<le> claim_amount c \<and> claim_amount c \<le> 5000
             \<and> py_round (claim_amount c) 2 = claim_amount c)
       \<and> seen_uuid4 w' = rev (claim_uuids cs) @ seen_uuid4 w
       \<and> distinct (claim_uuids cs)
       \<and> set (claim_uuids cs) \<inter> set (seen_uuid4 w) = {}"
proof -
  from assms obtain cs where
    l: "claims_loop n ids [] (w\<lparr>stdout := stdout w @ [claims_banner]\<rparr>) = (Inr cs, w')"
    and t: "Table_from_pandas (DataFrame claim_keys cs) claims_schema = Inr t"
    by (auto simp: generate_claims_eq split: prod.splits sum.splits)
  from claims_loop_Inr [OF l] have p: "length cs = n"
    "\<forall>c \<in> set cs. claim_patient_id c \<in> set ids
             \<and> (\<exists>w3 d w4. sample_date w3 = (Inr d, w4)
                    \<and> service_date c = datetime_combine d time_min)
             \<and> 100 \<le> claim_amount c \<and> claim_amount c \<le> 5000
             \<and> py_round (claim_amount c) 2 = claim_amount c"
    "seen_uuid4 w' = rev (claim_uuids cs) @ seen_uuid4 w"
    "distinct (claim_uuids cs)"
    "set (claim_uuids cs) \<inter> set (seen_uuid4 w) = {}"
    by auto
  have ne: "cs \<noteq> []"
  proof
    assume "cs = []"
    with t show False by (simp add: Table_from_pandas_no_rows)
  qed
  have "\<And>c. c \<in> set cs \<Longrightarrow> \<exists>d. service_date c = datetime_combine d time_min"
    using p(2) by blast
  from Table_from_pandas_claims [OF ne this] t
  have "t = \<lparr>tbl_schema = claims_schema, tbl_columns = claim_columns cs\<rparr>" by simp
  moreover from ne p(1) have "0 < n" by auto
  ultimately show ?thesis using p by blast
qed

lemma generate_claims_Inl:
  assumes "generate_claims n ids w = (Inl e, w')"
  shows "e = UniquenessException \<or> (ids = [] \<and> e = IndexError)
         \<or> (n = 0 \<and> (\<exists>m. e = KeyError m))"
proof (cases "claims_loop n ids [] (w\<lparr>stdout := stdout w @ [claims_banner]\<rparr>)")
  case (Pair res w1)
  show ?thesis
  proof (cases res)
    case (Inl e1)
    with Pair assms have "claims_loop n ids [] (w\<lparr>stdout := stdout w @ [claims_banner]\<rparr>) = (Inl e, w')"
      by (simp add: generate_claims_eq)
    from claims_loop_Inl [OF this] show ?thesis by blast
  next
    case (Inr cs)
    with Pair assms have t: "Table_from_pandas (DataFrame claim_keys cs) claims_schema = Inl e"
      by (simp add: generate_claims_eq)
    from Pair Inr have l: "claims_loop n ids [] (w\<lparr>stdout := stdout w @ [claims_banner]\<rparr>) = (Inr cs, w1)"
      by simp
    note p = claims_loop_Inr [OF l]
    have "cs = []"
    proof (rule ccontr)
      assume ne: "cs \<noteq> []"
      have "\<And>c. c \<in> set cs \<Longrightarrow> \<exists>d. service_date c = datetime_combine d time_min"
        using p by auto
      from Table_from_pandas_claims [OF ne this] t show False by simp
    qed
    with p t show ?thesis by (auto simp: Table_from_pandas_no_rows)
  qed
qed

lemma generate_claims_first:
  assumes "ids \<noteq> []" and "0 < n"
    and "distinct (claim_candidates (entropy w) (cursor w) n)"
    and "set (claim_candidates (entropy w) (cursor w) n) \<inter> set (seen_uuid4 w) = {}"
  shows "\<exists>t. generate_claims n ids w =
     (Inr t, w\<lparr>stdout := stdout w @ [claims_banner], cursor := cursor w + 8 * n,
               seen_uuid4 := rev (claim_candidates (entropy w) (cursor w) n) @ seen_uuid4 w\<rparr>)"
proof -
  let ?w0 = "w\<lparr>stdout := stdout w @ [claims_banner]\<rparr>"
  have "distinct (claim_candidates (entropy ?w0) (cursor ?w0) n)" using assms(3) by simp
  moreover have "set (claim_candidates (entropy ?w0) (cursor ?w0) n) \<inter> set (seen_uuid4 ?w0) = {}"
    using assms(4) by simp
  ultimately obtain cs where l: "claims_loop n ids [] ?w0 =
     (Inr cs, ?w0\<lparr>cursor := cursor ?w0 + 8 * n,
               seen_uuid4 := rev (claim_candidates (entropy ?w0) (cursor ?w0) n) @ seen_uuid4 ?w0\<rparr>)"
    using claims_loop_first [OF assms(1)] by blast
  note p = claims_loop_Inr [OF l]
  from p assms(2) have ne: "cs \<noteq> []" by auto
  have "\<And>c. c \<in> set cs \<Longrightarrow> \<exists>d. service_date c = datetime_combine d time_min"
    using p by auto
  from Table_from_pandas_claims [OF ne this] l show ?thesis
    by (simp add: generate_claims_eq)
qed

lemma table_column_claims:
  "table_column \<lparr>tbl_schema = claims_schema, tbl_columns = claim_columns cs\<rparr> ''patient_id''
     = Inr (map (\<lambda>c. AString (claim_patient_id c)) cs)"
  "table_column \<lparr>tbl_schema = claims_schema, tbl_columns = claim_columns cs\<rparr> ''service_date''
     = Inr (map (\<lambda>c. ATimestampMs (dt_date (service_date c) * 86400000)) cs)"
  "table_column \<lparr>tbl_schema = claims_schema, tbl_columns = claim_columns cs\<rparr> ''claim_amount''
     = Inr (map (\<lambda>c. AFloat64 (claim_amount c)) cs)"
  by (simp_all add: table_column_def claims_schema_def claim_columns_def getitem_def)

lemma num_rows_claims:
  "num_rows \<lparr>tbl_schema = claims_schema, tbl_columns = claim_columns cs\<rparr> = length cs"
  by (simp add: num_rows_def claim_columns_def)

lemma num_columns_claims:
  "num_columns \<lparr>tbl_schema = claims_schema, tbl_columns = claim_columns cs\<rparr> = 8"
  by (simp add: num_columns_def claims_schema_def)

section \<open>The storage gateway\<close>

lemma map_of_replaced: "map_of (filter (\<lambda>(n, b). n \<noteq> k) xs @ [(k, v)]) k = Some v"
proof -
  have "map_of (filter (\<lambda>(n, b). n \<noteq> k) xs) k = None"
    by (induction xs) auto
  then show ?thesis by (simp add: map_add_def)
qed

lemma client_call_cases:
  "client_call w = (r, w') \<Longrightarrow>
     w' = w\<lparr>calls := Suc (calls w)\<rparr>
     \<and> (case fault_plan w (calls w) of Some m \<Rightarrow> r = Inl (GatewayError m) | None \<Rightarrow> r = Inr ())"
  by (auto simp: client_call_def split: option.splits)

lemma bucket_call_Inr:
  "bucket_call w = (Inr u, w') \<Longrightarrow>
     w' = w\<lparr>calls := Suc (calls w)\<rparr> \<and> fault_plan w (calls w) = None \<and> BUCKET_NAME \<in> set (buckets w)"
  by (auto simp: bucket_call_def seq_bind_def client_call_def split: option.splits if_splits)

lemma bucket_call_Inl:
  "bucket_call w = (Inl e, w') \<Longrightarrow> w' = w\<lparr>calls := Suc (calls w)\<rparr> \<and> (\<exists>m. e = GatewayError m)"
  by (auto simp: bucket_call_def seq_bind_def client_call_def split: option.splits if_splits)

lemma bucket_call_ok:
  "fault_plan w (calls w) = None \<Longrightarrow> BUCKET_NAME \<in> set (buckets w) \<Longrightarrow>
     bucket_call w = (Inr (), w\<lparr>calls := Suc (calls w)\<rparr>)"
  by (simp add: bucket_call_def seq_bind_def client_call_def)

lemma blob_upload_Inr:
  "blob_upload name ctype payload w = (Inr u, w') \<Longrightarrow>
     w' = w\<lparr>calls := Suc (calls w),
            objects := filter (\<lambda>(n, b). n \<noteq> name) (objects w)
                         @ [(name, \<lparr>content_type = ctype, body = payload\<rparr>)]\<rparr>
     \<and> fault_plan w (calls w) = None \<and> BUCKET_NAME \<in> set (buckets w)"
  unfolding blob_upload_def by (elim seq_bindE) (auto dest!: bucket_call_Inr)

lemma blob_upload_Inl:
  "blob_upload name ctype payload w = (Inl e, w') \<Longrightarrow>
     w' = w\<lparr>calls := Suc (calls w)\<rparr> \<and> (\<exists>m. e = GatewayError m)"
  unfolding blob_upload_def by (auto dest!: seq_bind_InlD bucket_call_Inl)

lemma blob_upload_ok:
  "fault_plan w (calls w) = None \<Longrightarrow> BUCKET_NAME \<in> set (buckets w) \<Longrightarrow>
     blob_upload name ctype payload w =
       (Inr (), w\<lparr>calls := Suc (calls w),
                 objects := filter (\<lambda>(n, b). n \<noteq> name) (objects w)
                              @ [(name, \<lparr>content_type = ctype, body = payload\<rparr>)]\<rparr>)"
  by (simp add: blob_upload_def seq_bind_def bucket_call_ok)

lemma upload_json_units:
  "upload_to_gcs (Units us) path filename ''json'' w =
     (case blob_upload (path @ filename) ''application/json'' (TextBody (str_join [CHR 0x0A] us))
             (w\<lparr>stdout := stdout w @ [''Uploading '' @ filename @ '' in json format to GCS...'']\<rparr>) of
        (Inl e, w') \<Rightarrow> (Inl e, w')
      | (Inr u, w') \<Rightarrow> (Inr (), w'\<lparr>stdout := stdout w' @ [''Uploaded '' @ filename @ '' to '' @ path]\<rparr>))"
  by (simp add: upload_to_gcs_def seq_bind_def print_def split: prod.splits sum.splits)

lemma upload_json_units_Inr:
  assumes "upload_to_gcs (Units us) path filename ''json'' w = (Inr u, w')"
  shows "map_of (objects w') (path @ filename)
           = Some \<lparr>content_type = ''application/json'', body = TextBody (str_join [CHR 0x0A] us)\<rparr>"
proof -
  from assms have "objects w' = filter (\<lambda>(n, b). n \<noteq> path @ filename) (objects w)
      @ [(path @ filename, \<lparr>content_type = ''application/json'',
                             body = TextBody (str_join [CHR 0x0A] us)\<rparr>)]"
    by (auto simp: upload_json_units split: prod.splits sum.splits dest!: blob_upload_Inr)
  then show ?thesis by (simp only: map_of_replaced)
qed

lemma upload_json_units_ok:
  assumes "fault_plan w (calls w) = None" and "BUCKET_NAME \<in> set (buckets w)"
  shows "\<exists>w'. upload_to_gcs (Units us) path filename ''json'' w = (Inr (), w')"
  using assms by (simp add: upload_json_units blob_upload_ok)

section \<open>Records refer to the supplied patients\<close>

lemma world1_patients:
  "first_candidates (entropy world1) (cursor world1) 5 =
     [''00000000-0000-4000-8000-000000000000'', ''00000000-0000-4000-8000-000000000008'',
      ''00000000-0000-4000-8000-000000000010'', ''00000000-0000-4000-8000-000000000018'',
      ''00000000-0000-4000-8000-000000000020'']"
  by (simp add: world1_def first_candidates_numeral uuid_eval)

lemma world1_claims:
  "claim_candidates (\<lambda>i. i) 110 10 =
     [''00000000-0000-4000-8000-00000000006e'', ''00000000-0000-4000-8000-000000000070'',
      ''00000000-0000-4000-8000-000000000076'', ''00000000-0000-4000-8000-000000000078'',
      ''00000000-0000-4000-8000-00000000007e'', ''00000000-0000-4000-8000-000000000080'',
      ''00000000-0000-4000-8000-000000000086'', ''00000000-0000-4000-8000-000000000088'',
      ''00000000-0000-4000-8000-00000000008e'', ''00000000-0000-4000-8000-000000000090'',
      ''00000000-0000-4000-8000-000000000096'', ''00000000-0000-4000-8000-000000000098'',
      ''00000000-0000-4000-8000-00000000009e'', ''00000000-0000-4000-8000-0000000000a0'',
      ''00000000-0000-4000-8000-0000000000a6'', ''00000000-0000-4000-8000-0000000000a8'',
      ''00000000-0000-4000-8000-0000000000ae'', ''00000000-0000-4000-8000-0000000000b0'',
      ''00000000-0000-4000-8000-0000000000b6'', ''00000000-0000-4000-8000-0000000000b8'']"
  by (simp add: claim_candidates_numeral uuid_eval)

text \<open>
  C2.  Whenever \<open>generate_ehr\<close> returns, it returns \<open>n\<close> units, each the JSON text of a
  record whose \<open>patient_id\<close> is one of the supplied identifiers; whenever
  \<open>generate_claims\<close> returns, the table has \<open>n\<close> rows and 8 columns and every cell of its
  \<open>patient_id\<close> column is one of the supplied identifiers.  The witness is the run of the
  scenario: 5 patients, then 10 health records and 10 claims for their identifiers.
\<close>

theorem records_refer_to_patients:
  "(generate_ehr n ids w = (Inr units, w1) \<longrightarrow>
      length units = n
      \<and> (\<forall>u \<in> set units. \<exists>r. u = json_dumps r \<and> ehr_patient_id r \<in> set ids))
   \<and> (generate_claims n ids w = (Inr t, w2) \<longrightarrow>
      num_rows t = n \<and> num_columns t = 8
      \<and> (\<exists>col. table_column t ''patient_id'' = Inr col \<and> length col = n
            \<and> (\<forall>v \<in> set col. \<exists>p \<in> set ids. v = AString p)))"
proof (intro conjI impI)
  assume "generate_ehr n ids w = (Inr units, w1)"
  then have "generate_ehr_from ehr_codes n ids w = (Inr units, w1)"
    by (simp add: generate_ehr_def)
  from generate_ehr_from_Inr [OF this] obtain rs where rs: "units = map json_dumps rs"
    "length rs = n" "\<forall>r \<in> set rs. ehr_patient_id r \<in> set ids"
    by blast
  from rs show "length units = n" by simp
  from rs show "\<forall>u \<in> set units. \<exists>r. u = json_dumps r \<and> ehr_patient_id r \<in> set ids"
    by auto
next
  assume "generate_claims n ids w = (Inr t, w2)"
  from generate_claims_Inr [OF this] obtain cs where
    t: "t = \<lparr>tbl_schema = claims_schema, tbl_columns = claim_columns cs\<rparr>"
    and n: "length cs = n" and p: "\<forall>c \<in> set cs. claim_patient_id c \<in> set ids"
    by blast
  from t n show "num_rows t = n" by (simp add: num_rows_claims)
  from t show "num_columns t = 8" by (simp add: num_columns_claims)
  have "table_column t ''patient_id'' = Inr (map (\<lambda>c. AString (claim_patient_id c)) cs)"
    using t by (simp add: table_column_claims)
  moreover have "length (map (\<lambda>c. AString (claim_patient_id c)) cs) = n" using n by simp
  moreover have "\<forall>v \<in> set (map (\<lambda>c. AString (claim_patient_id c)) cs). \<exists>p \<in> set ids. v = AString p"
    using p by auto
  ultimately show "\<exists>col. table_column t ''patient_id'' = Inr col \<and> length col = n
            \<and> (\<forall>v \<in> set col. \<exists>p \<in> set ids. v = AString p)"
    by blast
qed

theorem records_refer_to_patients_witness:
  "\<exists>df w1 ids units w2 t w3.
     generate_patients 5 world1 = (Inr df, w1) \<and> patient_id_tolist df = Inr ids
     \<and> length ids = 5
     \<and> generate_ehr 10 ids w1 = (Inr units, w2)
     \<and> generate_claims 10 ids w2 = (Inr t, w3)
     \<and> length units = 10
     \<and> (\<forall>u \<in> set units. \<exists>r. u = json_dumps r \<and> ehr_patient_id r \<in> set ids)
     \<and> num_rows t = 10 \<and> num_columns t = 8
     \<and> (\<exists>col. table_column t ''patient_id'' = Inr col \<and> length col = 10
           \<and> (\<forall>v \<in> set col. \<exists>p \<in> set ids. v = AString p))"
proof -
  let ?ids = "first_candidates (entropy world1) (cursor world1) 5"
  let ?w1 = "world1\<lparr>stdout := stdout world1 @ [patients_banner], cursor := cursor world1 + 8 * 5,
              seen_uuid4 := rev ?ids @ seen_uuid4 world1\<rparr>"
  let ?w2 = "?w1\<lparr>stdout := stdout ?w1 @ [ehr_banner], cursor := cursor ?w1 + 7 * 10\<rparr>"
  have "distinct ?ids" and "set ?ids \<inter> set (seen_uuid4 world1) = {}"
    by (simp_all add: world1_patients) (simp add: world1_def)
  from generate_patients_first [OF this] obtain df where
    gp: "generate_patients 5 world1 = (Inr df, ?w1)"
    and cols: "df_columns df = patient_keys" and ids: "map patient_id (df_rows df) = ?ids"
    by auto
  from cols ids have tl: "patient_id_tolist df = Inr ?ids"
    by (simp add: patient_id_tolist_def patient_keys_def)
  have ne: "?ids \<noteq> []" by (simp add: world1_patients)
  from generate_ehr_ok [OF ne, of 10 ?w1] obtain units where
    ge: "generate_ehr 10 ?ids ?w1 = (Inr units, ?w2)" by blast
  have c: "claim_candidates (entropy ?w2) (cursor ?w2) 10 = claim_candidates (\<lambda>i. i) 110 10"
    by (simp add: world1_def)
  have "distinct (claim_candidates (entropy ?w2) (cursor ?w2) 10)"
    unfolding c by (simp add: world1_claims)
  moreover have "set (claim_candidates (entropy ?w2) (cursor ?w2) 10) \<inter> set (seen_uuid4 ?w2) = {}"
    unfolding c by (simp add: world1_claims world1_patients) (simp add: world1_def)
  ultimately obtain t w3 where gc: "generate_claims 10 ?ids ?w2 = (Inr t, w3)"
    using generate_claims_first [OF ne, of 10 ?w2] by auto
  from records_refer_to_patients [of 10 ?ids ?w1 units ?w2] ge
  have e: "length units = 10"
    "\<forall>u \<in> set units. \<exists>r. u = json_dumps r \<and> ehr_patient_id r \<in> set ?ids"
    by simp_all
  from records_refer_to_patients [of 10 ?ids ?w2 _ _ t w3] gc
  have k: "num_rows t = 10" "num_columns t = 8"
    "\<exists>col. table_column t ''patient_id'' = Inr col \<and> length col = 10
           \<and> (\<forall>v \<in> set col. \<exists>p \<in> set ?ids. v = AString p)"
    by simp_all
  have "length ?ids = 5" by (simp add: length_first_candidates)
  with gp tl ge gc e k show ?thesis by blast
qed

section \<open>An empty list of patient identifiers\<close>

text \<open>
  C3, as stated, fails for a count of zero: the loop is not entered, nothing is chosen, and
  the empty list is returned.
\<close>

theorem generate_ehr_empty_ids_zero:
  "generate_ehr 0 [] world1 = (Inr [], world1\<lparr>stdout := stdout world1 @ [ehr_banner]\<rparr>)"
  by (simp add: generate_ehr_def generate_ehr_from_eq)

text \<open>
  C3, amended.  With an empty list of patient identifiers and a count of at least one,
  \<open>generate_ehr\<close> raises \<open>IndexError\<close> in its first round, before any record exists; with a
  count of zero it returns the empty list.
\<close>

theorem generate_ehr_empty_ids:
  "generate_ehr (Suc n) [] w = (Inl IndexError, w\<lparr>stdout := stdout w @ [ehr_banner]\<rparr>)
   \<and> generate_ehr 0 [] w = (Inr [], w\<lparr>stdout := stdout w @ [ehr_banner]\<rparr>)"
  by (simp add: generate_ehr_def generate_ehr_from_eq ehr_round_empty)

section \<open>The description of a diagnosis\<close>

lemma generate_ehr_from_missing:
  assumes "ids \<noteq> []" and "codes \<noteq> []"
    and "map_of diagnosis_table (codes ! (entropy w (cursor w + 2) mod length codes)) = None"
  shows "generate_ehr_from codes (Suc n) ids w =
           (Inl (KeyError (codes ! (entropy w (cursor w + 2) mod length codes))),
            w\<lparr>stdout := stdout w @ [ehr_banner], cursor := cursor w + 3\<rparr>)"
proof -
  let ?w0 = "w\<lparr>stdout := stdout w @ [ehr_banner]\<rparr>"
  have "map_of diagnosis_table (codes ! (entropy ?w0 (cursor ?w0 + 2) mod length codes)) = None"
    using assms(3) by simp
  from ehr_round_missing [OF assms(1,2) this] show ?thesis
    by (simp add: generate_ehr_from_eq)
qed

text \<open>
  C4.  Every unit \<open>generate_ehr\<close> returns is the JSON text of a record whose
  \<open>diagnosis_desc\<close> is the entry of the fixed table for its \<open>diagnosis_code\<close>, and the
  same holds for any list of codes to choose from; \<open>generate_ehr\<close> itself never fails
  for a missing entry, since its five codes all have one; and when a code is chosen that
  has no entry, generation stops with the \<open>KeyError\<close> of that code.
\<close>

theorem diagnosis_desc_from_table:
  "(generate_ehr_from codes n ids w = (Inr units, w') \<longrightarrow>
      (\<forall>u \<in> set units. \<exists>r. u = json_dumps r
          \<and> getitem diagnosis_table (diagnosis_code r) = Inr (diagnosis_desc r)))
   \<and> (generate_ehr n ids w = (Inr units, w') \<longrightarrow>
      (\<forall>u \<in> set units. \<exists>r. u = json_dumps r \<and> diagnosis_code r \<in> set ehr_codes
          \<and> getitem diagnosis_table (diagnosis_code r) = Inr (diagnosis_desc r)))
   \<and> (generate_ehr n ids w = (Inl e, w') \<longrightarrow> e = IndexError \<and> ids = [])
   \<and> (ids \<noteq> [] \<and> codes \<noteq> []
        \<and> getitem diagnosis_table (codes ! (entropy w (cursor w + 2) mod length codes))
            = Inl (KeyError (codes ! (entropy w (cursor w + 2) mod length codes)))
      \<longrightarrow> fst (generate_ehr_from codes (Suc n) ids w)
            = Inl (KeyError (codes ! (entropy w (cursor w + 2) mod length codes))))"
proof (intro conjI impI)
  assume "generate_ehr_from codes n ids w = (Inr units, w')"
  from generate_ehr_from_Inr [OF this] obtain rs where rs: "units = map json_dumps rs"
    "\<forall>r \<in> set rs. map_of diagnosis_table (diagnosis_code r) = Some (diagnosis_desc r)"
    by blast
  show "\<forall>u \<in> set units. \<exists>r. u = json_dumps r
          \<and> getitem diagnosis_table (diagnosis_code r) = Inr (diagnosis_desc r)"
  proof
    fix u assume "u \<in> set units"
    with rs obtain r where "r \<in> set rs" "u = json_dumps r" by auto
    with rs(2) show "\<exists>r. u = json_dumps r
          \<and> getitem diagnosis_table (diagnosis_code r) = Inr (diagnosis_desc r)"
      by (auto simp: getitem_Inr)
  qed
next
  assume "generate_ehr n ids w = (Inr units, w')"
  then have "generate_ehr_from ehr_codes n ids w = (Inr units, w')"
    by (simp add: generate_ehr_def)
  from generate_ehr_from_Inr [OF this] obtain rs where rs: "units = map json_dumps rs"
    "\<forall>r \<in> set rs. diagnosis_code r \<in> set ehr_codes
        \<and> map_of diagnosis_table (diagnosis_code r) = Some (diagnosis_desc r)"
    by blast
  show "\<forall>u \<in> set units. \<exists>r. u = json_dumps r \<and> diagnosis_code r \<in> set ehr_codes
          \<and> getitem diagnosis_table (diagnosis_code r) = Inr (diagnosis_desc r)"
  proof
    fix u assume "u \<in> set units"
    with rs obtain r where "r \<in> set rs" "u = json_dumps r" by auto
    with rs(2) show "\<exists>r. u = json_dumps r \<and> diagnosis_code r \<in> set ehr_codes
          \<and> getitem diagnosis_table (diagnosis_code r) = Inr (diagnosis_desc r)"
      by (auto simp: getitem_Inr)
  qed
next
  assume "generate_ehr n ids w = (Inl e, w')"
  from generate_ehr_Inl [OF this] show "e = IndexError" by simp
next
  assume "generate_ehr n ids w = (Inl e, w')"
  from generate_ehr_Inl [OF this] show "ids = []" by simp
next
  assume a: "ids \<noteq> [] \<and> codes \<noteq> []
        \<and> getitem diagnosis_table (codes ! (entropy w (cursor w + 2) mod length codes))
            = Inl (KeyError (codes ! (entropy w (cursor w + 2) mod length codes)))"
  then have "map_of diagnosis_table (codes ! (entropy w (cursor w + 2) mod length codes)) = None"
    by (simp add: getitem_Inl)
  with a show "fst (generate_ehr_from codes (Suc n) ids w)
            = Inl (KeyError (codes ! (entropy w (cursor w + 2) mod length codes)))"
    by (simp add: generate_ehr_from_missing)
qed

theorem diagnosis_desc_from_table_witness:
  "(\<exists>units w'. generate_ehr 2 one_id world1 = (Inr units, w')
       \<and> (\<forall>u \<in> set units. \<exists>r. u = json_dumps r \<and> diagnosis_code r \<in> set ehr_codes
             \<and> getitem diagnosis_table (diagnosis_code r) = Inr (diagnosis_desc r)))
   \<and> (\<exists>w'. generate_ehr 1 [] world1 = (Inl IndexError, w'))
   \<and> getitem diagnosis_table ''X99'' = Inl (KeyError ''X99'')
   \<and> fst (generate_ehr_from [''X99'', ''E11.9''] 1 one_id world1) = Inl (KeyError ''X99'')"
proof (intro conjI)
  have "one_id \<noteq> []" by (simp add: one_id_def)
  from generate_ehr_ok [OF this, of 2 world1] obtain units w' where
    g: "generate_ehr 2 one_id world1 = (Inr units, w')" by blast
  with diagnosis_desc_from_table [of ehr_codes 2 one_id world1 units w']
  show "\<exists>units w'. generate_ehr 2 one_id world1 = (Inr units, w')
       \<and> (\<forall>u \<in> set units. \<exists>r. u = json_dumps r \<and> diagnosis_code r \<in> set ehr_codes
             \<and> getitem diagnosis_table (diagnosis_code r) = Inr (diagnosis_desc r))"
    by blast
next
  have "generate_ehr 1 [] world1 = (Inl IndexError, world1\<lparr>stdout := stdout world1 @ [ehr_banner]\<rparr>)"
    by (simp add: generate_ehr_def generate_ehr_from_eq ehr_round_empty)
  with diagnosis_desc_from_table [of ehr_codes 1 "[]" world1 _ _ IndexError]
  show "\<exists>w'. generate_ehr 1 [] world1 = (Inl IndexError, w')" by blast
next
  show x: "getitem diagnosis_table ''X99'' = Inl (KeyError ''X99'')"
    by (simp add: getitem_def diagnosis_table_def)
  have c: "[''X99'', ''E11.9''] ! (entropy world1 (cursor world1 + 2) mod length [''X99'', ''E11.9''])
             = ''X99''"
    by (simp add: world1_def)
  from diagnosis_desc_from_table [of "[''X99'', ''E11.9'']" 0 one_id world1] x c
  show "fst (generate_ehr_from [''X99'', ''E11.9''] 1 one_id world1) = Inl (KeyError ''X99'')"
    by (simp add: one_id_def)
qed

section \<open>Amounts and service dates\<close>





section \<open>One unit per line\<close>

text \<open>
  C6.  Joining units that are not empty and hold no newline gives a text whose lines are
  exactly these units.  The units \<open>generate_ehr\<close> returns are such units, \<open>n\<close> of them, and
  what \<open>upload_to_gcs\<close> stores for them under the format \<open>json\<close> is a text whose lines
  are exactly the \<open>n\<close> units, none with a newline inside.
\<close>

theorem ehr_units_are_lines:
  "((\<forall>u \<in> set us. CHR 0x0A \<notin> set u \<and> u \<noteq> []) \<longrightarrow>
      lines_of (str_join [CHR 0x0A] us) = us)
   \<and> (generate_ehr n ids w = (Inr units, w1) \<longrightarrow>
        length units = n \<and> (\<forall>u \<in> set units. CHR 0x0A \<notin> set u \<and> u \<noteq> []))
   \<and> (generate_ehr n ids w = (Inr units, w1)
        \<and> upload_to_gcs (Units units) path filename ''json'' w2 = (Inr x, w3) \<longrightarrow>
        (\<exists>text. map_of (objects w3) (path @ filename)
                   = Some \<lparr>content_type = ''application/json'', body = TextBody text\<rparr>
           \<and> lines_of text = units \<and> length (lines_of text) = n
           \<and> (\<forall>l \<in> set (lines_of text). CHR 0x0A \<notin> set l)))"
proof -
  have gen: "length units = n \<and> (\<forall>u \<in> set units. CHR 0x0A \<notin> set u \<and> u \<noteq> [])"
    if "generate_ehr n ids w = (Inr units, w1)"
  proof -
    from that have "generate_ehr_from ehr_codes n ids w = (Inr units, w1)"
      by (simp add: generate_ehr_def)
    from generate_ehr_from_Inr [OF this] obtain rs where
      "units = map json_dumps rs" "length rs = n" by blast
    then show ?thesis by (auto simp: json_dumps_no_nl json_dumps_not_Nil)
  qed
  have up: "\<exists>text. map_of (objects w3) (path @ filename)
                   = Some \<lparr>content_type = ''application/json'', body = TextBody text\<rparr>
           \<and> lines_of text = units \<and> length (lines_of text) = n
           \<and> (\<forall>l \<in> set (lines_of text). CHR 0x0A \<notin> set l)"
    if g: "generate_ehr n ids w = (Inr units, w1)"
      and u: "upload_to_gcs (Units units) path filename ''json'' w2 = (Inr x, w3)"
  proof -
    from gen [OF g] have p: "length units = n"
      "\<forall>u \<in> set units. CHR 0x0A \<notin> set u \<and> u \<noteq> []" by simp_all
    from lines_of_join [OF p(2)] have l: "lines_of (str_join [CHR 0x0A] units) = units" .
    from upload_json_units_Inr [OF u] l p show ?thesis by auto
  qed
  from gen up lines_of_join [of us] show ?thesis by blast
qed

theorem ehr_units_are_lines_witness:
  "\<exists>units w1 w3 text.
     generate_ehr 3 one_id world3 = (Inr units, w1)
     \<and> upload_to_gcs (Units units) DEV_PATH ''ehr_data.json'' ''json'' w1 = (Inr (), w3)
     \<and> length units = 3 \<and> (\<forall>u \<in> set units. CHR 0x0A \<notin> set u \<and> u \<noteq> [])
     \<and> map_of (objects w3) (DEV_PATH @ ''ehr_data.json'')
          = Some \<lparr>content_type = ''application/json'', body = TextBody text\<rparr>
     \<and> lines_of text = units \<and> length (lines_of text) = 3"
proof -
  let ?w1 = "world3\<lparr>stdout := stdout world3 @ [ehr_banner], cursor := cursor world3 + 7 * 3\<rparr>"
  have "one_id \<noteq> []" by (simp add: one_id_def)
  from generate_ehr_ok [OF this, of 3 world3] obtain units where
    g: "generate_ehr 3 one_id world3 = (Inr units, ?w1)" by blast
  have "fault_plan ?w1 (calls ?w1) = None" and "BUCKET_NAME \<in> set (buckets ?w1)"
    by (simp_all add: world3_def world1_def)
  from upload_json_units_ok [OF this] obtain w3 where
    u: "upload_to_gcs (Units units) DEV_PATH ''ehr_data.json'' ''json'' ?w1 = (Inr (), w3)"
    by blast
  from ehr_units_are_lines [of units 3 one_id world3 units ?w1 DEV_PATH "''ehr_data.json''" ?w1 "()" w3]
    g u
  show ?thesis by blast
qed

section \<open>An unknown format\<close>

text \<open>
  C9.  With a format other than \<open>csv\<close>, \<open>json\<close> and \<open>parquet\<close>, \<open>upload_to_gcs\<close> makes no
  call to the storage client, stores nothing and raises nothing, whatever the data: it only
  prints its two lines, the second of which reports the upload.
\<close>

theorem upload_unknown_format:
  "file_format \<noteq> ''csv'' \<and> file_format \<noteq> ''json'' \<and> file_format \<noteq> ''parquet'' \<longrightarrow>
     upload_to_gcs data path filename file_format w =
       (Inr (),
        w\<lparr>stdout := stdout w
             @ [''Uploading '' @ filename @ '' in '' @ file_format @ '' format to GCS...'',
                ''Uploaded '' @ filename @ '' to '' @ path]\<rparr>)"
  by (simp add: upload_to_gcs_def seq_bind_def print_def return_io_def)

theorem upload_unknown_format_witness:
  "upload_to_gcs (Units [''{}'']) DEV_PATH ''ehr_data.xml'' ''xml'' world3 =
     (Inr (),
      world3\<lparr>stdout := stdout world3
           @ [''Uploading ehr_data.xml in xml format to GCS...'',
              ''Uploaded ehr_data.xml to dev/'']\<rparr>)
   \<and> objects (snd (upload_to_gcs (Units [''{}'']) DEV_PATH ''ehr_data.xml'' ''xml'' world3)) = []
   \<and> calls (snd (upload_to_gcs (Units [''{}'']) DEV_PATH ''ehr_data.xml'' ''xml'' world3)) = 0"
  using upload_unknown_format [of "''xml''" "Units [''{}'']" DEV_PATH "''ehr_data.xml''" world3]
  by (simp add: DEV_PATH_def world3_def world1_def)

section \<open>Errors\<close>

lemma seq_bind_Inl_iff:
  "seq_bind m f w = (Inl e, w') \<longleftrightarrow>
     m w = (Inl e, w') \<or> (\<exists>x w1. m w = (Inr x, w1) \<and> f x w1 = (Inl e, w'))"
  by (auto simp: seq_bind_def split: prod.splits sum.splits)

lemma create_bucket_eq:
  "create_bucket w =
     (case create_bucket_try w of
        (Inl e, w1) \<Rightarrow> (Inr (), w1\<lparr>stdout := stdout w1 @ [''Error creating bucket: '' @ str_error e]\<rparr>)
      | (Inr u, w1) \<Rightarrow> (Inr (), w1))"
  by (simp add: create_bucket_def print_def split: prod.splits sum.splits)

lemma create_bucket_returns: "fst (create_bucket w) = Inr ()"
  by (simp add: create_bucket_eq split: prod.splits sum.splits)

lemma create_bucket_not_Inl [simp]: "create_bucket w \<noteq> (Inl e, w')"
  using create_bucket_returns [of w] by (cases "create_bucket w") auto

lemma create_bucket_Inr: "create_bucket w = (Inr (), snd (create_bucket w))"
  using create_bucket_returns [of w] by (cases "create_bucket w") auto

lemma script_Inl_iff:
  "script n m w = (Inl e, w') \<longleftrightarrow>
     connect w = (Inl e, w')
     \<or> (\<exists>w1. connect w = (Inr (), w1)
          \<and> (run_pass DEV_PATH n (snd (create_bucket w1)) = (Inl e, w')
              \<or> (\<exists>dev w3. run_pass DEV_PATH n (snd (create_bucket w1)) = (Inr dev, w3)
                    \<and> run_pass PROD_PATH m w3 = (Inl e, w'))))"
proof -
  have "script n m w = (Inl e, w') \<longleftrightarrow>
     connect w = (Inl e, w')
     \<or> (\<exists>w1. connect w = (Inr (), w1)
          \<and> (\<exists>w2. create_bucket w1 = (Inr (), w2)
            \<and> (run_pass DEV_PATH n w2 = (Inl e, w')
              \<or> (\<exists>dev w3. run_pass DEV_PATH n w2 = (Inr dev, w3)
                    \<and> run_pass PROD_PATH m w3 = (Inl e, w')))))"
    unfolding script_def by (simp add: seq_bind_Inl_iff print_def return_io_def)
  also have "\<dots> \<longleftrightarrow>
     connect w = (Inl e, w')
     \<or> (\<exists>w1. connect w = (Inr (), w1)
          \<and> (run_pass DEV_PATH n (snd (create_bucket w1)) = (Inl e, w')
              \<or> (\<exists>dev w3. run_pass DEV_PATH n (snd (create_bucket w1)) = (Inr dev, w3)
                    \<and> run_pass PROD_PATH m w3 = (Inl e, w'))))"
    using create_bucket_Inr by (metis snd_conv)
  finally show ?thesis .
qed

text \<open>The list of identifiers is read twice from the same frame: once is enough.\<close>

lemma run_pass_once:
  "run_pass path records w =
     seq_bind (empty_gcs_folder path) (\<lambda>_.
     seq_bind (generate_patients records) (\<lambda>patients.
     seq_bind (pure_io (patient_id_tolist patients)) (\<lambda>ids.
     seq_bind (generate_ehr records ids) (\<lambda>ehr.
     seq_bind (generate_claims records ids) (\<lambda>claims.
     seq_bind (upload_to_gcs (Frame patients) path ''patient_data.csv'' ''csv'') (\<lambda>_.
     seq_bind (upload_to_gcs (Units ehr) path ''ehr_data.json'' ''json'') (\<lambda>_.
     seq_bind (upload_to_gcs (Table claims) path ''claims_data.parquet'' ''parquet'') (\<lambda>_.
     return_io \<lparr>pass_patients = patients, pass_ehr = ehr, pass_claims = claims\<rparr>)))))))) w"
  unfolding run_pass_def
  by (simp add: seq_bind_def pure_io_def split: prod.splits sum.splits)

lemma run_pass_Inl_iff:
  "run_pass path n w = (Inl e, w') \<longleftrightarrow>
     empty_gcs_folder path w = (Inl e, w')
     \<or> (\<exists>w1. empty_gcs_folder path w = (Inr (), w1)
        \<and> (generate_patients n w1 = (Inl e, w')
          \<or> (\<exists>ps w2. generate_patients n w1 = (Inr ps, w2)
            \<and> ((patient_id_tolist ps = Inl e \<and> w' = w2)
              \<or> (\<exists>ids. patient_id_tolist ps = Inr ids
                \<and> (generate_ehr n ids w2 = (Inl e, w')
                  \<or> (\<exists>ehr w3. generate_ehr n ids w2 = (Inr ehr, w3)
                    \<and> (generate_claims n ids w3 = (Inl e, w')
                      \<or> (\<exists>t w4. generate_claims n ids w3 = (Inr t, w4)
                        \<and> (upload_to_gcs (Frame ps) path ''patient_data.csv'' ''csv'' w4 = (Inl e, w')
                          \<or> (\<exists>w5. upload_to_gcs (Frame ps) path ''patient_data.csv'' ''csv'' w4
                                     = (Inr (), w5)
                            \<and> (upload_to_gcs (Units ehr) path ''ehr_data.json'' ''json'' w5 = (Inl e, w')
                              \<or> (\<exists>w6. upload_to_gcs (Units ehr) path ''ehr_data.json'' ''json'' w5
                                         = (Inr (), w6)
                                \<and> upload_to_gcs (Table t) path ''claims_data.parquet'' ''parquet'' w6
                                     = (Inl e, w'))))))))))))))"
  unfolding run_pass_once
  by (simp add: seq_bind_Inl_iff pure_io_eq return_io_def) blast

lemma map_of_replaced_other:
  "name \<noteq> k \<Longrightarrow> map_of (filter (\<lambda>(n, b). n \<noteq> k) xs @ [(k, v)]) name = map_of xs name"
proof -
  assume ne: "name \<noteq> k"
  have "map_of (filter (\<lambda>(n, b). n \<noteq> k) xs) name = map_of xs name"
    using ne by (induction xs) auto
  with ne show ?thesis by (auto simp: map_add_def split: option.splits)
qed

lemma upload_to_gcs_Inl:
  assumes "upload_to_gcs data path filename file_format w = (Inl e, w')"
  shows "objects w' = objects w" and "calls w' \<le> Suc (calls w)"
    and "seen_uuid4 w' = seen_uuid4 w"
  using assms unfolding upload_to_gcs_def
  by (auto simp: print_def raise_io_def return_io_def
           split: if_splits upload_data.splits
           dest!: seq_bind_InlD blob_upload_Inl)

lemma upload_to_gcs_Inr:
  assumes "upload_to_gcs data path filename file_format w = (Inr u, w')"
  shows "objects w' = objects w
         \<or> (\<exists>b. objects w' = filter (\<lambda>(n, b). n \<noteq> path @ filename) (objects w)
                                @ [(path @ filename, b)])"
    and "seen_uuid4 w' = seen_uuid4 w"
  using assms unfolding upload_to_gcs_def
  by (elim seq_bindE;
      auto simp: print_def raise_io_def return_io_def
           split: if_splits upload_data.splits
           dest!: blob_upload_Inr)+

lemma upload_csv_Inr:
  assumes "upload_to_gcs (Frame df) path filename ''csv'' w = (Inr u, w')"
  shows "objects w' = filter (\<lambda>(n, b). n \<noteq> path @ filename) (objects w)
           @ [(path @ filename, \<lparr>content_type = ''text/csv'',
                                  body = CsvOf (df_columns df) (df_rows df)\<rparr>)]"
  using assms unfolding upload_to_gcs_def
  by (elim seq_bindE) (auto simp: print_def dest!: blob_upload_Inr)

lemma uploads_stay:
  assumes u1: "upload_to_gcs (Frame ps) path ''patient_data.csv'' ''csv'' w4 = (Inr (), w5)"
    and u2: "upload_to_gcs (Units ehr) path ''ehr_data.json'' ''json'' w5 = (Inr (), w6)"
    and u3: "upload_to_gcs (Table t) path ''claims_data.parquet'' ''parquet'' w6 = (Inl e, w')"
  shows "map_of (objects w') (path @ ''patient_data.csv'')
           = Some \<lparr>content_type = ''text/csv'', body = CsvOf (df_columns ps) (df_rows ps)\<rparr>"
    and "map_of (objects w') (path @ ''ehr_data.json'')
           = Some \<lparr>content_type = ''application/json'',
                   body = TextBody (str_join [CHR 0x0A] ehr)\<rparr>"
proof -
  from upload_to_gcs_Inl(1) [OF u3] have o3: "objects w' = objects w6" .
  have o2: "objects w6 = filter (\<lambda>(n, b). n \<noteq> path @ ''ehr_data.json'') (objects w5)
      @ [(path @ ''ehr_data.json'', \<lparr>content_type = ''application/json'',
                             body = TextBody (str_join [CHR 0x0A] ehr)\<rparr>)]"
    using u2
    by (auto simp: upload_json_units split: prod.splits sum.splits dest!: blob_upload_Inr)
  have ne: "path @ ''patient_data.csv'' \<noteq> path @ ''ehr_data.json''" by simp
  have "map_of (objects w5) (path @ ''patient_data.csv'')
           = Some \<lparr>content_type = ''text/csv'', body = CsvOf (df_columns ps) (df_rows ps)\<rparr>"
    unfolding upload_csv_Inr [OF u1] by (simp only: map_of_replaced)
  then show "map_of (objects w') (path @ ''patient_data.csv'')
           = Some \<lparr>content_type = ''text/csv'', body = CsvOf (df_columns ps) (df_rows ps)\<rparr>"
    unfolding o3 o2 by (simp only: map_of_replaced_other [OF ne])
  show "map_of (objects w') (path @ ''ehr_data.json'')
           = Some \<lparr>content_type = ''application/json'',
                   body = TextBody (str_join [CHR 0x0A] ehr)\<rparr>"
    unfolding o3 o2 by (simp only: map_of_replaced)
qed

text \<open>
  C8.  \<open>create_bucket\<close> never raises: an exception of its body is caught and printed, and
  the script goes on from the state the failure left.  Nothing else is caught: the script
  ends with an exception exactly when connecting or one of the two passes raises it, a
  pass exactly when one of its statements raises it, and each time the run ends with this
  exception in the very state in which it was raised.  A failed upload has made at most
  one call to the storage client and has left the stored objects as they were: the
  objects uploaded before it stay.
\<close>

theorem errors_two_classes:
  "fst (create_bucket w) = Inr ()
   \<and> create_bucket w =
       (case create_bucket_try w of
          (Inl e, w1) \<Rightarrow>
            (Inr (), w1\<lparr>stdout := stdout w1 @ [''Error creating bucket: '' @ str_error e]\<rparr>)
        | (Inr u, w1) \<Rightarrow> (Inr (), w1))
   \<and> (script n m w = (Inl e, w') \<longleftrightarrow>
        connect w = (Inl e, w')
        \<or> (\<exists>w1. connect w = (Inr (), w1)
             \<and> (run_pass DEV_PATH n (snd (create_bucket w1)) = (Inl e, w')
                 \<or> (\<exists>dev w3. run_pass DEV_PATH n (snd (create_bucket w1)) = (Inr dev, w3)
                       \<and> run_pass PROD_PATH m w3 = (Inl e, w')))))
   \<and> (run_pass path n w = (Inl e, w') \<longleftrightarrow>
     empty_gcs_folder path w = (Inl e, w')
     \<or> (\<exists>w1. empty_gcs_folder path w = (Inr (), w1)
        \<and> (generate_patients n w1 = (Inl e, w')
          \<or> (\<exists>ps w2. generate_patients n w1 = (Inr ps, w2)
            \<and> ((patient_id_tolist ps = Inl e \<and> w' = w2)
              \<or> (\<exists>ids. patient_id_tolist ps = Inr ids
                \<and> (generate_ehr n ids w2 = (Inl e, w')
                  \<or> (\<exists>ehr w3. generate_ehr n ids w2 = (Inr ehr, w3)
                    \<and> (generate_claims n ids w3 = (Inl e, w')
                      \<or> (\<exists>t w4. generate_claims n ids w3 = (Inr t, w4)
                        \<and> (upload_to_gcs (Frame ps) path ''patient_data.csv'' ''csv'' w4 = (Inl e, w')
                          \<or> (\<exists>w5. upload_to_gcs (Frame ps) path ''patient_data.csv'' ''csv'' w4
                                     = (Inr (), w5)
                            \<and> (upload_to_gcs (Units ehr) path ''ehr_data.json'' ''json'' w5 = (Inl e, w')
                              \<or> (\<exists>w6. upload_to_gcs (Units ehr) path ''ehr_data.json'' ''json'' w5
                                         = (Inr (), w6)
                                \<and> upload_to_gcs (Table t) path ''claims_data.parquet'' ''parquet'' w6
                                     = (Inl e, w')))))))))))))))
   \<and> (upload_to_gcs data path filename file_format w = (Inl e, w') \<longrightarrow>
        objects w' = objects w \<and> calls w' \<le> Suc (calls w))
   \<and> (upload_to_gcs (Frame ps) path ''patient_data.csv'' ''csv'' v4 = (Inr (), v5)
        \<and> upload_to_gcs (Units ehr) path ''ehr_data.json'' ''json'' v5 = (Inr (), v6)
        \<and> upload_to_gcs (Table t) path ''claims_data.parquet'' ''parquet'' v6 = (Inl e, v7) \<longrightarrow>
        map_of (objects v7) (path @ ''patient_data.csv'')
          = Some \<lparr>content_type = ''text/csv'', body = CsvOf (df_columns ps) (df_rows ps)\<rparr>
        \<and> map_of (objects v7) (path @ ''ehr_data.json'')
          = Some \<lparr>content_type = ''application/json'',
                  body = TextBody (str_join [CHR 0x0A] ehr)\<rparr>)"
  using create_bucket_returns [of w] create_bucket_eq [of w] script_Inl_iff [of n m w e w']
    run_pass_Inl_iff [of path n w e w'] upload_to_gcs_Inl(1,2) [of data path filename file_format w e w']
    uploads_stay [of ps path v4 v5 ehr v6 t e v7]
  by (intro conjI impI; (elim conjE)?; assumption?)

lemmas io_eval = seq_bind_def return_io_def raise_io_def lift_io_def pure_io_def print_def

lemmas gateway_eval = client_call_def bucket_call_def bucket_exists_def client_create_bucket_def
  list_blobs_def blob_delete_def blob_upload_def create_bucket_try_def
  empty_gcs_folder_def upload_to_gcs_def connect_def

lemma world4_connect:
  "connect world4 =
     (Inr (), world4\<lparr>calls := 2,
                 stdout := [''Successfully connected to GCS. Available buckets:'',
                            '' - '' @ BUCKET_NAME]\<rparr>)"
  by (simp add: io_eval gateway_eval world4_def world3_def world1_def)

lemma world4_create_bucket_try:
  "create_bucket_try (world4\<lparr>calls := 2,
                 stdout := [''Successfully connected to GCS. Available buckets:'',
                            '' - '' @ BUCKET_NAME]\<rparr>) =
     (Inl (GatewayError ''503 Service Unavailable''),
      world4\<lparr>calls := 3,
                 stdout := [''Successfully connected to GCS. Available buckets:'',
                            '' - '' @ BUCKET_NAME]\<rparr>)"
  by (simp add: io_eval gateway_eval world4_def world3_def world1_def)

lemma world4_empty_gcs_folder:
  "empty_gcs_folder DEV_PATH (world4\<lparr>calls := 3,
                 stdout := [''Successfully connected to GCS. Available buckets:'',
                            '' - '' @ BUCKET_NAME,
                            ''Error creating bucket: 503 Service Unavailable'']\<rparr>) =
     (Inl (GatewayError ''503 Service Unavailable''),
      world4\<lparr>calls := 4,
                 stdout := [''Successfully connected to GCS. Available buckets:'',
                            '' - '' @ BUCKET_NAME,
                            ''Error creating bucket: 503 Service Unavailable'',
                            ''Emptying folder '' @ quoted DEV_PATH @ '' in GCS bucket ''
                               @ quoted BUCKET_NAME @ ''...'']\<rparr>)"
  by (simp add: io_eval gateway_eval world4_def world3_def world1_def)

lemma world5_uploads:
  "upload_to_gcs (Frame no_patients) DEV_PATH ''patient_data.csv'' ''csv'' world5
     = (Inr (), snd (upload_to_gcs (Frame no_patients) DEV_PATH ''patient_data.csv'' ''csv'' world5))"
  "upload_to_gcs (Units []) DEV_PATH ''ehr_data.json'' ''json''
       (snd (upload_to_gcs (Frame no_patients) DEV_PATH ''patient_data.csv'' ''csv'' world5))
     = (Inr (), snd (upload_to_gcs (Units []) DEV_PATH ''ehr_data.json'' ''json''
       (snd (upload_to_gcs (Frame no_patients) DEV_PATH ''patient_data.csv'' ''csv'' world5))))"
  "fst (upload_to_gcs (Table no_claims) DEV_PATH ''claims_data.parquet'' ''parquet''
       (snd (upload_to_gcs (Units []) DEV_PATH ''ehr_data.json'' ''json''
         (snd (upload_to_gcs (Frame no_patients) DEV_PATH ''patient_data.csv'' ''csv'' world5)))))
     = Inl (GatewayError ''503 Service Unavailable'')"
  by (simp_all add: io_eval gateway_eval world5_def world3_def world1_def)

theorem errors_two_classes_witness:
  "fst (create_bucket_try (snd (connect world4))) = Inl (GatewayError ''503 Service Unavailable'')
   \<and> fst (create_bucket (snd (connect world4))) = Inr ()
   \<and> last (stdout (snd (create_bucket (snd (connect world4)))))
        = ''Error creating bucket: 503 Service Unavailable''
   \<and> fst (script 1 1 world4) = Inl (GatewayError ''503 Service Unavailable'')
   \<and> calls (snd (script 1 1 world4)) = 4
   \<and> objects (snd (script 1 1 world4)) = []
   \<and> fst (upload_to_gcs (Table no_claims) DEV_PATH ''claims_data.parquet'' ''parquet''
       (snd (upload_to_gcs (Units []) DEV_PATH ''ehr_data.json'' ''json''
         (snd (upload_to_gcs (Frame no_patients) DEV_PATH ''patient_data.csv'' ''csv'' world5)))))
     = Inl (GatewayError ''503 Service Unavailable'')
   \<and> map fst (objects (snd (upload_to_gcs (Table no_claims) DEV_PATH ''claims_data.parquet'' ''parquet''
       (snd (upload_to_gcs (Units []) DEV_PATH ''ehr_data.json'' ''json''
         (snd (upload_to_gcs (Frame no_patients) DEV_PATH ''patient_data.csv'' ''csv'' world5)))))))
     = [''dev/patient_data.csv'', ''dev/ehr_data.json'']"
proof -
  let ?w1 = "world4\<lparr>calls := 2,
                 stdout := [''Successfully connected to GCS. Available buckets:'',
                            '' - '' @ BUCKET_NAME]\<rparr>"
  let ?w1' = "world4\<lparr>calls := 3,
                 stdout := [''Successfully connected to GCS. Available buckets:'',
                            '' - '' @ BUCKET_NAME]\<rparr>"
  let ?w2 = "world4\<lparr>calls := 3,
                 stdout := [''Successfully connected to GCS. Available buckets:'',
                            '' - '' @ BUCKET_NAME,
                            ''Error creating bucket: 503 Service Unavailable'']\<rparr>"
  let ?w3 = "world4\<lparr>calls := 4,
                 stdout := [''Successfully connected to GCS. Available buckets:'',
                            '' - '' @ BUCKET_NAME,
                            ''Error creating bucket: 503 Service Unavailable'',
                            ''Emptying folder '' @ quoted DEV_PATH @ '' in GCS bucket ''
                               @ quoted BUCKET_NAME @ ''...'']\<rparr>"
  let ?e = "GatewayError ''503 Service Unavailable''"
  let ?v5 = "snd (upload_to_gcs (Frame no_patients) DEV_PATH ''patient_data.csv'' ''csv'' world5)"
  let ?v6 = "snd (upload_to_gcs (Units []) DEV_PATH ''ehr_data.json'' ''json'' ?v5)"
  let ?u3 = "upload_to_gcs (Table no_claims) DEV_PATH ''claims_data.parquet'' ''parquet'' ?v6"
  have cb: "create_bucket ?w1 = (Inr (), ?w2)"
    using errors_two_classes [where w = ?w1, THEN conjunct2, THEN conjunct1]
      world4_create_bucket_try
    by simp
  have rp: "run_pass DEV_PATH 1 ?w2 = (Inl ?e, ?w3)"
    using errors_two_classes [where w = ?w2 and path = DEV_PATH and n = 1 and e = ?e and w' = ?w3,
        THEN conjunct2, THEN conjunct2, THEN conjunct2, THEN conjunct1]
      world4_empty_gcs_folder
    by simp
  have sc: "script 1 1 world4 = (Inl ?e, ?w3)"
    using errors_two_classes [where w = world4 and n = 1 and m = 1 and e = ?e and w' = ?w3,
        THEN conjunct2, THEN conjunct2, THEN conjunct1]
      world4_connect cb rp
    by simp
  have u3: "?u3 = (Inl ?e, snd ?u3)"
    using world5_uploads(3) by (cases ?u3) simp
  have st: "map_of (objects (snd ?u3)) (DEV_PATH @ ''patient_data.csv'')
          = Some \<lparr>content_type = ''text/csv'',
                  body = CsvOf (df_columns no_patients) (df_rows no_patients)\<rparr>"
    using errors_two_classes [where ps = no_patients and path = DEV_PATH and ?v4.0 = world5
        and ?v5.0 = ?v5 and ehr = "[]" and ?v6.0 = ?v6 and t = no_claims and e = ?e
        and ?v7.0 = "snd ?u3",
        THEN conjunct2, THEN conjunct2, THEN conjunct2, THEN conjunct2, THEN conjunct2]
      world5_uploads(1,2) u3
    by blast
  have names: "map fst (objects (snd ?u3)) = [''dev/patient_data.csv'', ''dev/ehr_data.json'']"
    by (simp add: io_eval gateway_eval world5_def world3_def world1_def DEV_PATH_def)
  show ?thesis
    using world4_connect world4_create_bucket_try cb sc world5_uploads(3) names
    by (simp add: world4_def world3_def world1_def)
qed

end
